theory Spec2Isabelle
  imports Complex_Main "HOL-Library.Multiset"
begin

section \<open>Transaction records\<close>

text \<open>
  The status enumeration of \<^verbatim>\<open>types.ts\<close>, together with \<^verbatim>\<open>dropped\<close>, which
  \<^verbatim>\<open>setTransactionStatusDropped\<close> assigns.
\<close>

datatype TransactionStatus =
  Approved | Cancelled | Confirmed | Failed | Rejected | Signed | Submitted | Unapproved
  | Dropped

text \<open>A JavaScript number that is an integer or \<^verbatim>\<open>NaN\<close> (the result of \<^verbatim>\<open>parseInt\<close>).\<close>

datatype jsnum = Num int | NaN

text \<open>
  A thrown error object: the name of its class (\<^verbatim>\<open>Error\<close>, \<^verbatim>\<open>TypeError\<close>), its message
  and, for the errors of eth-rpc-errors, its code.
\<close>

record Error =
  errorName :: string
  message :: string
  code :: "int option"

text \<open>
  The interface \<^verbatim>\<open>Transaction\<close>. Every field but \<^verbatim>\<open>from\<close> is optional; the field
  names carry the prefix \<open>tx_\<close> because \<open>from\<close> and \<open>value\<close> are reserved words.
\<close>

record Transaction =
  tx_chainId :: "jsnum option"
  tx_data :: "string option"
  tx_from :: string
  tx_gas :: "string option"
  tx_gasPrice :: "string option"
  tx_nonce :: "string option"
  tx_to :: "string option"
  tx_value :: "string option"
  tx_maxFeePerGas :: "string option"
  tx_maxPriorityFeePerGas :: "string option"
  tx_estimatedBaseFee :: "string option"
  tx_type :: "string option"

text \<open>
  The type \<^verbatim>\<open>TransactionMeta\<close>, with the fields the controller reads or writes.
  \<^verbatim>\<open>transaction\<close> is optional here because \<^verbatim>\<open>trimTransactionsForState\<close> tests it
  for presence; \<^verbatim>\<open>time\<close> is a number of milliseconds since the epoch.
\<close>

record TransactionMeta =
  txId :: string
  networkID :: "string option"
  chainId :: "string option"
  origin :: "string option"
  rawTx :: "string option"
  status :: TransactionStatus
  time :: int
  transaction :: "Transaction option"
  hash :: "string option"
  error :: "Error option"

section \<open>Decimal and hexadecimal strings\<close>

definition digitChar :: "int \<Rightarrow> char" where
  "digitChar d = ''0123456789abcdef'' ! nat d"

text \<open>
  \<^verbatim>\<open>Number.prototype.toString(10)\<close> and \<^verbatim>\<open>toString(16)\<close> on an integer.
\<close>

function toDecimal :: "int \<Rightarrow> string" where
  "toDecimal n =
     (if n < 0 then CHR ''-'' # toDecimal (- n)
      else if n < 10 then [digitChar n]
      else toDecimal (n div 10) @ [digitChar (n mod 10)])"
  by pat_completeness auto
termination
  by (relation "measure (\<lambda>n. if n < 0 then nat (1 - 2 * n) else nat (2 * n))") auto

declare toDecimal.simps [simp del]

function toString16 :: "int \<Rightarrow> string" where
  "toString16 n =
     (if n < 0 then CHR ''-'' # toString16 (- n)
      else if n < 16 then [digitChar n]
      else toString16 (n div 16) @ [digitChar (n mod 16)])"
  by pat_completeness auto
termination
  by (relation "measure (\<lambda>n. if n < 0 then nat (1 - 2 * n) else nat (2 * n))") auto

declare toString16.simps [simp del]

definition hexDigitValue :: "char \<Rightarrow> int option" where
  "hexDigitValue c = map_of
     [(CHR ''0'', 0), (CHR ''1'', 1), (CHR ''2'', 2), (CHR ''3'', 3), (CHR ''4'', 4),
      (CHR ''5'', 5), (CHR ''6'', 6), (CHR ''7'', 7), (CHR ''8'', 8), (CHR ''9'', 9),
      (CHR ''a'', 10), (CHR ''b'', 11), (CHR ''c'', 12), (CHR ''d'', 13), (CHR ''e'', 14),
      (CHR ''f'', 15), (CHR ''A'', 10), (CHR ''B'', 11), (CHR ''C'', 12), (CHR ''D'', 13),
      (CHR ''E'', 14), (CHR ''F'', 15)] c"

section \<open>The trim policy\<close>

definition isFinalState :: "TransactionStatus \<Rightarrow> bool" where
  "isFinalState s \<longleftrightarrow> s = Rejected \<or> s = Confirmed \<or> s = Failed \<or> s = Cancelled"

text \<open>The comparator handed to \<^verbatim>\<open>sort\<close>: \<^verbatim>\<open>(a, b) => (a.time > b.time ? -1 : 1)\<close>.\<close>

definition compareTime :: "TransactionMeta \<Rightarrow> TransactionMeta \<Rightarrow> int" where
  "compareTime a b = (if time a > time b then - 1 else 1)"

text \<open>
  \<^verbatim>\<open>Array.prototype.sort\<close> with that comparator. On records with different times the
  comparator is a strict order and every sort returns the same list. It never answers
  \<^verbatim>\<open>0\<close>, so on records with equal times the language leaves the order to the engine; the
  model is the insertion sort that places each element, from left to right, before the first
  element the comparator puts it in front of (a negative answer), which is what a binary
  insertion or merge sort does.
\<close>

fun insertByTime :: "TransactionMeta \<Rightarrow> TransactionMeta list \<Rightarrow> TransactionMeta list" where
  "insertByTime x [] = [x]"
| "insertByTime x (y # ys) =
     (if compareTime x y < 0 then x # y # ys else y # insertByTime x ys)"

definition sortDescending :: "TransactionMeta list \<Rightarrow> TransactionMeta list" where
  "sortDescending txs = foldl (\<lambda>acc x. insertByTime x acc) [] txs"

text \<open>\<^verbatim>\<open>`${v}`\<close> of an optional string.\<close>

definition interpolate :: "string option \<Rightarrow> string" where
  "interpolate v = (case v of None \<Rightarrow> ''undefined'' | Some s \<Rightarrow> s)"

text \<open>\<^verbatim>\<open>chainId ?? networkID\<close>\<close>

definition chainIdOrNetworkID :: "TransactionMeta \<Rightarrow> string option" where
  "chainIdOrNetworkID tx = (case chainId tx of Some c \<Rightarrow> Some c | None \<Rightarrow> networkID tx)"

text \<open>
  The key of a record in the filter. \<open>toDateString\<close> stands for
  \<^verbatim>\<open>new Date(time).toDateString()\<close>, which depends on the local time zone.
\<close>

definition nonceNetworkKey :: "(int \<Rightarrow> string) \<Rightarrow> TransactionMeta \<Rightarrow> Transaction \<Rightarrow> string" where
  "nonceNetworkKey toDateString tx t =
     interpolate (tx_nonce t) @ ''-'' @ interpolate (chainIdOrNetworkID tx) @ ''-''
       @ toDateString (time tx)"

text \<open>
  The callback of \<^verbatim>\<open>filter\<close>, with \<^verbatim>\<open>nonceNetworkSet\<close> passed along as the list of
  the keys added so far (a key is added only when it is absent, so the length of the list is
  the size of the set).
\<close>

fun filterTxsToKeep ::
  "(int \<Rightarrow> string) \<Rightarrow> int \<Rightarrow> string list \<Rightarrow> TransactionMeta list \<Rightarrow> TransactionMeta list" where
  "filterTxsToKeep toDateString txHistoryLimit nonceNetworkSet [] = []"
| "filterTxsToKeep toDateString txHistoryLimit nonceNetworkSet (tx # txs) =
     (case transaction tx of
        Some t \<Rightarrow>
          (let key = nonceNetworkKey toDateString tx t in
           if key \<in> set nonceNetworkSet
           then tx # filterTxsToKeep toDateString txHistoryLimit nonceNetworkSet txs
           else if int (length nonceNetworkSet) < txHistoryLimit \<or> \<not> isFinalState (status tx)
           then tx # filterTxsToKeep toDateString txHistoryLimit (key # nonceNetworkSet) txs
           else filterTxsToKeep toDateString txHistoryLimit nonceNetworkSet txs)
      | None \<Rightarrow> filterTxsToKeep toDateString txHistoryLimit nonceNetworkSet txs)"

definition trimTransactionsForState ::
  "(int \<Rightarrow> string) \<Rightarrow> int \<Rightarrow> TransactionMeta list \<Rightarrow> TransactionMeta list" where
  "trimTransactionsForState toDateString txHistoryLimit transactions =
     rev (filterTxsToKeep toDateString txHistoryLimit [] (sortDescending transactions))"


section \<open>Calendar days\<close>

text \<open>
  \<^verbatim>\<open>Date.prototype.toDateString\<close> in the time zone UTC, the instance of the parameter
  \<open>toDateString\<close> used in the examples: the day of the week, the month, the day of the month
  on two digits and the year on four, or \<^verbatim>\<open>Invalid Date\<close> outside the range of time
  values.
\<close>

definition civilFromDays :: "int \<Rightarrow> int \<times> int \<times> int" where
  "civilFromDays days =
     (let z = days + 719468;
          era = z div 146097;
          doe = z mod 146097;
          yoe = (doe - doe div 1460 + doe div 36524 - doe div 146096) div 365;
          doy = doe - (365 * yoe + yoe div 4 - yoe div 100);
          mp = (5 * doy + 2) div 153;
          d = doy - (153 * mp + 2) div 5 + 1;
          m = (if mp < 10 then mp + 3 else mp - 9);
          y = yoe + era * 400 + (if m \<le> 2 then 1 else 0)
      in (y, m, d))"

definition dayName :: "int \<Rightarrow> string" where
  "dayName days =
     [''Sun'', ''Mon'', ''Tue'', ''Wed'', ''Thu'', ''Fri'', ''Sat''] ! nat ((days + 4) mod 7)"

definition monthName :: "int \<Rightarrow> string" where
  "monthName m =
     [''Jan'', ''Feb'', ''Mar'', ''Apr'', ''May'', ''Jun'', ''Jul'', ''Aug'', ''Sep'', ''Oct'',
      ''Nov'', ''Dec''] ! nat (m - 1)"

definition zeroPad :: "nat \<Rightarrow> string \<Rightarrow> string" where
  "zeroPad n s = replicate (n - length s) (CHR ''0'') @ s"

definition toDateStringUTC :: "int \<Rightarrow> string" where
  "toDateStringUTC t =
     (if \<bar>t\<bar> > 8640000000000000 then ''Invalid Date''
      else
        (let days = t div 86400000 in
         case civilFromDays days of
           (y, m, d) \<Rightarrow>
             dayName days @ '' '' @ monthName m @ '' '' @ zeroPad 2 (toDecimal d) @ '' ''
               @ (if y < 0 then ''-'' else []) @ zeroPad 4 (toDecimal \<bar>y\<bar>)))"

section \<open>Fee utilities\<close>

text \<open>\<^verbatim>\<open>isHexString\<close> of ethereumjs-util: the prefix \<^verbatim>\<open>0x\<close> and then hexadecimal digits only.\<close>

definition isHexString :: "string \<Rightarrow> bool" where
  "isHexString s \<longleftrightarrow> take 2 s = ''0x'' \<and> list_all (\<lambda>c. hexDigitValue c \<noteq> None) (drop 2 s)"

definition hexDigitsValue :: "string \<Rightarrow> int" where
  "hexDigitsValue ds =
     foldl (\<lambda>acc c. 16 * acc + (case hexDigitValue c of Some d \<Rightarrow> d | None \<Rightarrow> 0)) 0 ds"

text \<open>
  Modelled from the spec: \<^verbatim>\<open>convertHexToDecimal\<close> of controller-utils is not among the sources.
  The spec has every gas and fee value a base-16 string with an explicit prefix, read in
  arbitrary-precision integers. An absent value and a string that is no such numeral read
  as 0.
\<close>

definition convertHexToDecimal :: "string option \<Rightarrow> int" where
  "convertHexToDecimal v =
     (case v of
        None \<Rightarrow> 0
      | Some s \<Rightarrow> if isHexString s then hexDigitsValue (drop 2 s) else 0)"

text \<open>\<^verbatim>\<open>addHexPrefix\<close> of ethereumjs-util.\<close>

definition addHexPrefix :: "string \<Rightarrow> string" where
  "addHexPrefix s = (if take 2 s = ''0x'' then s else ''0x'' @ s)"

text \<open>
  The rates 1.5 and 1.1, as the fractions 3/2 and 11/10: a rate is a numerator and a
  denominator, and \<open>rateValue\<close> is the number it stands for.
\<close>

type_synonym Rate = "int \<times> int"

definition CANCEL_RATE :: Rate where
  "CANCEL_RATE = (3, 2)"

definition SPEED_UP_RATE :: Rate where
  "SPEED_UP_RATE = (11, 10)"


text \<open>
  Modelled from the spec: \<^verbatim>\<open>getIncreasedPriceHex\<close> and \<^verbatim>\<open>getIncreasedPriceFromExisting\<close>
  of \<^verbatim>\<open>utils/utils.ts\<close> are not among the sources; their tests are. The spec gives the
  value times the rate, computed on integers, as a prefixed base-16 string, and the example
  \<^verbatim>\<open>getIncreasedPriceHex(1358778842, 1.1) == 0x5916a6d6\<close>, which the test asserts as well:
  the integral part of the product. The spec and the tests fix the rounding at that example
  only; at other values the integral part is the reading of this model, and the properties
  of \<^verbatim>\<open>stopTransaction\<close> and \<^verbatim>\<open>speedUpTransaction\<close> take the result of the helper as
  the minimum, whatever it is.
\<close>

definition getIncreasedPriceHex :: "int \<Rightarrow> Rate \<Rightarrow> string" where
  "getIncreasedPriceHex v rate =
     (case rate of (numerator, denominator) \<Rightarrow>
        addHexPrefix (toString16 (v * numerator div denominator)))"

definition getIncreasedPriceFromExisting :: "string option \<Rightarrow> Rate \<Rightarrow> string" where
  "getIncreasedPriceFromExisting v rate = getIncreasedPriceHex (convertHexToDecimal v) rate"

definition mkError :: "string \<Rightarrow> Error" where
  "mkError msg = \<lparr>errorName = ''Error'', message = msg, code = None\<rparr>"

definition mkTypeError :: "string \<Rightarrow> Error" where
  "mkTypeError msg = \<lparr>errorName = ''TypeError'', message = msg, code = None\<rparr>"

text \<open>
  Modelled from the spec: \<^verbatim>\<open>validateMinimumIncrease\<close> is not among the sources; its tests
  are. A proposed value that meets or exceeds the minimum is returned, a lower one throws
  the error whose message the test gives.
\<close>

definition minimumIncreaseError :: "int \<Rightarrow> int \<Rightarrow> Error" where
  "minimumIncreaseError proposedDecimal minDecimal =
     mkError (''The proposed value: '' @ toDecimal proposedDecimal
       @ '' should meet or exceed the minimum value: '' @ toDecimal minDecimal)"

definition validateMinimumIncrease :: "string \<Rightarrow> string \<Rightarrow> Error + string" where
  "validateMinimumIncrease proposed minimum =
     (let proposedDecimal = convertHexToDecimal (Some proposed);
          minDecimal = convertHexToDecimal (Some minimum)
      in if proposedDecimal \<ge> minDecimal then Inr proposed
         else Inl (minimumIncreaseError proposedDecimal minDecimal))"

text \<open>
  Modelled from the spec: \<^verbatim>\<open>validateGasValues\<close>, \<^verbatim>\<open>isGasPriceValue\<close>,
  \<^verbatim>\<open>isFeeMarketEIP1559Values\<close> and \<^verbatim>\<open>isEIP1559Transaction\<close> are not among the sources;
  their tests are. The argument \<^verbatim>\<open>gasValues\<close> of type
  \<^verbatim>\<open>GasPriceValue | FeeMarketEIP1559Values\<close> is an object in which each of the three keys
  may be present. Each value present must be a prefixed base-16 string, or a
  \<^verbatim>\<open>TypeError\<close> with the message of the test is thrown; the keys are visited in the
  order of the record.
\<close>

record GasValues =
  gv_gasPrice :: "string option"
  gv_maxFeePerGas :: "string option"
  gv_maxPriorityFeePerGas :: "string option"

definition hexStringExpected :: "string \<Rightarrow> string \<Rightarrow> Error" where
  "hexStringExpected key v =
     mkTypeError (''expected hex string for '' @ key @ '' but received: '' @ v)"

definition validateGasValue :: "string \<Rightarrow> string option \<Rightarrow> Error option" where
  "validateGasValue key v =
     (case v of
        None \<Rightarrow> None
      | Some s \<Rightarrow> if isHexString s then None else Some (hexStringExpected key s))"

definition validateGasValues :: "GasValues \<Rightarrow> Error option" where
  "validateGasValues gasValues =
     (case validateGasValue ''gasPrice'' (gv_gasPrice gasValues) of
        Some e \<Rightarrow> Some e
      | None \<Rightarrow>
          (case validateGasValue ''maxFeePerGas'' (gv_maxFeePerGas gasValues) of
             Some e \<Rightarrow> Some e
           | None \<Rightarrow> validateGasValue ''maxPriorityFeePerGas'' (gv_maxPriorityFeePerGas gasValues)))"

definition isGasPriceValue :: "GasValues option \<Rightarrow> bool" where
  "isGasPriceValue gasValues =
     (case gasValues of None \<Rightarrow> False | Some g \<Rightarrow> gv_gasPrice g \<noteq> None)"

definition isFeeMarketEIP1559Values :: "GasValues option \<Rightarrow> bool" where
  "isFeeMarketEIP1559Values gasValues =
     (case gasValues of
        None \<Rightarrow> False
      | Some g \<Rightarrow> gv_maxFeePerGas g \<noteq> None \<or> gv_maxPriorityFeePerGas g \<noteq> None)"

definition isEIP1559Transaction :: "Transaction \<Rightarrow> bool" where
  "isEIP1559Transaction t \<longleftrightarrow> tx_maxFeePerGas t \<noteq> None \<and> tx_maxPriorityFeePerGas t \<noteq> None"

text \<open>The truth value JavaScript gives an optional string: absent and empty are falsy.\<close>

definition truthy :: "string option \<Rightarrow> bool" where
  "truthy v = (case v of None \<Rightarrow> False | Some s \<Rightarrow> s \<noteq> [])"

section \<open>The controller, its collaborators and its effects\<close>

text \<open>
  The object handed to \<^verbatim>\<open>prepareUnsignedEthTx\<close>: transaction fields, \<^verbatim>\<open>gasLimit\<close> and,
  for a fee-market transaction, \<^verbatim>\<open>type: 2\<close>.
\<close>

record TxParams =
  params :: Transaction
  gasLimit :: "string option"
  envelopeType :: "nat option"

text \<open>
  What the controller does to the outside, in the order it does it: events on the hub,
  the mutex and the per-address nonce lock, the calls of the signer and of
  \<^verbatim>\<open>sendRawTransaction\<close>, the approval request and the callbacks of its result.
\<close>

datatype Effect =
    Emit string TransactionMeta
  | MutexAcquire
  | MutexRelease
  | NonceLockAcquire string
  | NonceLockRelease string
  | SignCall TxParams string
  | SendRawTransaction string
  | RequestApproval string
  | ResultCallbackError "Error option"
  | ResultCallbackSuccess

record ControllerState =
  transactions :: "TransactionMeta list"
  effects :: "Effect list"

text \<open>
  The collaborators and the configuration. Each external call returns a value or throws
  (\<open>Inl\<close>). \<open>sign\<close> is absent when no sign method is configured; the transaction it
  returns is represented by what \<^verbatim>\<open>bufferToHex(signedTx.serialize())\<close> then gives.
  \<open>prepareUnsignedEthTx\<close> gives the error the transaction factory throws, if any.
  \<open>requestApproval\<close> returns whether the accepted result carries callbacks.
  \<open>normalizeTransaction\<close> and \<open>validateTransaction\<close> of \<^verbatim>\<open>utils/utils.ts\<close> are not
  among the sources and are parameters, and so are \<open>updateGas\<close> and \<open>updateGasFees\<close>,
  which return the record with the gas fields they assign, the latter given the answer of
  \<open>getEIP1559Compatibility\<close>; \<open>random\<close> and \<open>dateNow\<close>
  are the next results of \<^verbatim>\<open>random()\<close> and \<^verbatim>\<open>Date.now()\<close>.
\<close>

record Env =
  sign :: "(TxParams \<Rightarrow> string \<Rightarrow> Error + (Error + string)) option"
  prepareUnsignedEthTx :: "TxParams \<Rightarrow> Error option"
  sendRawTransaction :: "string \<Rightarrow> Error + string"
  getNonceLock :: "string \<Rightarrow> Error + int"
  providerChainId :: "string option"
  parseInt :: "string \<Rightarrow> jsnum"
  txHistoryLimit :: int
  toDateString :: "int \<Rightarrow> string"
  normalizeTransaction :: "Transaction \<Rightarrow> Transaction"
  validateTransaction :: "Transaction \<Rightarrow> Error option"
  requestApproval :: "TransactionMeta \<Rightarrow> Error + bool"
  providerNetworkId :: "string option"
  getEIP1559Compatibility :: "Error + bool"
  updateGas :: "TransactionMeta \<Rightarrow> Error + TransactionMeta"
  updateGasFees :: "bool \<Rightarrow> TransactionMeta \<Rightarrow> Error + TransactionMeta"
  random :: string
  dateNow :: int

definition effect :: "Effect \<Rightarrow> ControllerState \<Rightarrow> ControllerState" where
  "effect e s = s\<lparr>effects := effects s @ [e]\<rparr>"

definition emit :: "string \<Rightarrow> TransactionMeta \<Rightarrow> ControllerState \<Rightarrow> ControllerState" where
  "emit eventName payload s = effect (Emit eventName payload) s"

definition trim :: "Env \<Rightarrow> TransactionMeta list \<Rightarrow> TransactionMeta list" where
  "trim env txs = trimTransactionsForState (toDateString env) (txHistoryLimit env) txs"

text \<open>\<^verbatim>\<open>Array.prototype.findIndex\<close>; \<open>None\<close> is the answer \<^verbatim>\<open>-1\<close>.\<close>

fun findIndex :: "('a \<Rightarrow> bool) \<Rightarrow> 'a list \<Rightarrow> nat option" where
  "findIndex P [] = None"
| "findIndex P (x # xs) = (if P x then Some 0 else map_option Suc (findIndex P xs))"

text \<open>
  \<^verbatim>\<open>transactions[index] = transactionMeta\<close> with \<^verbatim>\<open>index\<close> the answer of
  \<^verbatim>\<open>findIndex\<close> for the id: with \<^verbatim>\<open>-1\<close> the assignment adds no element.
\<close>

definition replaceById :: "TransactionMeta \<Rightarrow> TransactionMeta list \<Rightarrow> TransactionMeta list" where
  "replaceById transactionMeta txs =
     (case findIndex (\<lambda>m. txId transactionMeta = txId m) txs of
        None \<Rightarrow> txs
      | Some index \<Rightarrow> txs[index := transactionMeta])"

text \<open>
  An assignment to fields of a record object that is in the store. Objects are shared
  between the list of the state and the local variables; the model has values, and writes
  such an assignment through to the first record of the list with that id, which is the
  object whenever the ids of the list are distinct.
\<close>

definition storeInPlace :: "TransactionMeta \<Rightarrow> ControllerState \<Rightarrow> ControllerState" where
  "storeInPlace transactionMeta s =
     s\<lparr>transactions := replaceById transactionMeta (transactions s)\<rparr>"

section \<open>Store updates\<close>

text \<open>
  \<^verbatim>\<open>updateTransaction\<close>. The assignment of the normalized parameters changes the
  argument object, so the object is returned beside the outcome. A record without
  parameters makes \<^verbatim>\<open>normalizeTransaction\<close> read a field of \<^verbatim>\<open>undefined\<close>.
\<close>

definition updateTransaction ::
  "Env \<Rightarrow> TransactionMeta \<Rightarrow> ControllerState
     \<Rightarrow> (Error + unit) \<times> TransactionMeta \<times> ControllerState" where
  "updateTransaction env transactionMeta s =
     (case transaction transactionMeta of
        None \<Rightarrow>
          (Inl (mkTypeError ''Cannot read properties of undefined''), transactionMeta, s)
      | Some t \<Rightarrow>
          (let normalized = transactionMeta\<lparr>transaction := Some (normalizeTransaction env t)\<rparr> in
           case validateTransaction env (normalizeTransaction env t) of
             Some e \<Rightarrow> (Inl e, normalized, s)
           | None \<Rightarrow>
               (Inr (), normalized,
                s\<lparr>transactions := trim env (replaceById normalized (transactions s))\<rparr>)))"

text \<open>
  \<^verbatim>\<open>updateTransaction\<close> on a record object of the store, after assignments to its
  fields, as \<^verbatim>\<open>approveTransaction\<close> calls it: the store sees the assignments also when
  the validation throws.
\<close>

definition updateStoredTransaction ::
  "Env \<Rightarrow> TransactionMeta \<Rightarrow> ControllerState
     \<Rightarrow> (Error + unit) \<times> TransactionMeta \<times> ControllerState" where
  "updateStoredTransaction env transactionMeta s =
     (case updateTransaction env transactionMeta (storeInPlace transactionMeta s) of
        (Inl e, normalized, s') \<Rightarrow> (Inl e, normalized, storeInPlace normalized s')
      | (Inr u, normalized, s') \<Rightarrow> (Inr u, normalized, s'))"

definition finishedEvent :: "TransactionMeta \<Rightarrow> string" where
  "finishedEvent transactionMeta = txId transactionMeta @ '':finished''"

definition failTransaction ::
  "Env \<Rightarrow> TransactionMeta \<Rightarrow> Error \<Rightarrow> ControllerState \<Rightarrow> (Error + unit) \<times> ControllerState" where
  "failTransaction env transactionMeta err s =
     (let newTransactionMeta = transactionMeta\<lparr>error := Some err, status := Failed\<rparr> in
      case updateTransaction env newTransactionMeta s of
        (Inl e, stored, s') \<Rightarrow> (Inl e, s')
      | (Inr u, stored, s') \<Rightarrow> (Inr (), emit (finishedEvent transactionMeta) stored s'))"

definition cancelTransaction :: "Env \<Rightarrow> string \<Rightarrow> ControllerState \<Rightarrow> ControllerState" where
  "cancelTransaction env transactionID s =
     (case find (\<lambda>m. txId m = transactionID) (transactions s) of
        None \<Rightarrow> s
      | Some found \<Rightarrow>
          (let transactionMeta = found\<lparr>status := Rejected\<rparr>;
               s1 = emit (finishedEvent transactionMeta) transactionMeta
                      (storeInPlace transactionMeta s)
           in s1\<lparr>transactions :=
                   trim env (filter (\<lambda>m. txId m \<noteq> transactionID) (transactions s1))\<rparr>))"

definition isLocalFinalState :: "TransactionStatus \<Rightarrow> bool" where
  "isLocalFinalState st \<longleftrightarrow> st \<in> set [Cancelled, Confirmed, Failed, Rejected, Submitted]"

definition getTransaction :: "ControllerState \<Rightarrow> string \<Rightarrow> TransactionMeta option" where
  "getTransaction s transactionID = find (\<lambda>m. txId m = transactionID) (transactions s)"

definition isTransactionCompleted ::
  "ControllerState \<Rightarrow> string \<Rightarrow> TransactionMeta option \<times> bool" where
  "isTransactionCompleted s transactionid =
     (case getTransaction s transactionid of
        None \<Rightarrow> (None, False)
      | Some t \<Rightarrow> (Some t, isLocalFinalState (status t)))"

section \<open>Approval\<close>

text \<open>
  The \<^verbatim>\<open>try\<close> block of \<^verbatim>\<open>approveTransaction\<close>, in three parts. Each returns the
  outcome of the block (\<open>Inl\<close> for what it throws), the variable \<^verbatim>\<open>nonceLock\<close> (the
  address locked, if a lock was taken), the object \<^verbatim>\<open>transactionMeta\<close> with the
  assignments made so far, and the state.
\<close>

type_synonym TryResult = "(Error + unit) \<times> string option \<times> TransactionMeta \<times> ControllerState"

text \<open>From \<^verbatim>\<open>transactionMeta.rawTx = rawTx\<close> to the event.\<close>

definition approvePublish ::
  "Env \<Rightarrow> string option \<Rightarrow> TransactionMeta \<Rightarrow> string \<Rightarrow> ControllerState \<Rightarrow> TryResult" where
  "approvePublish env nonceLock transactionMeta raw s =
     (case updateStoredTransaction env (transactionMeta\<lparr>rawTx := Some raw\<rparr>) s of
        (Inl e, meta1, s1) \<Rightarrow> (Inl e, nonceLock, meta1, s1)
      | (Inr u, meta1, s1) \<Rightarrow>
          (let s2 = effect (SendRawTransaction raw) s1 in
           case sendRawTransaction env raw of
             Inl e \<Rightarrow> (Inl e, nonceLock, meta1, s2)
           | Inr h \<Rightarrow>
               (case updateStoredTransaction env (meta1\<lparr>hash := Some h, status := Submitted\<rparr>) s2 of
                  (Inl e, meta2, s3) \<Rightarrow> (Inl e, nonceLock, meta2, s3)
                | (Inr u', meta2, s3) \<Rightarrow>
                    (Inr (), nonceLock, meta2, emit (finishedEvent meta2) meta2 s3))))"

text \<open>From the call of the signer to the serialization of the signed transaction.\<close>

definition approveSign ::
  "Env \<Rightarrow> (TxParams \<Rightarrow> string \<Rightarrow> Error + (Error + string)) \<Rightarrow> string option
     \<Rightarrow> TransactionMeta \<Rightarrow> TxParams \<Rightarrow> string \<Rightarrow> ControllerState \<Rightarrow> TryResult" where
  "approveSign env signer nonceLock transactionMeta txParams sender s =
     (case prepareUnsignedEthTx env txParams of
        Some e \<Rightarrow> (Inl e, nonceLock, transactionMeta, s)
      | None \<Rightarrow>
          (let s1 = effect (SignCall txParams sender) s in
           case signer txParams sender of
             Inl e \<Rightarrow> (Inl e, nonceLock, transactionMeta, s1)
           | Inr signedTx \<Rightarrow>
               (case updateStoredTransaction env (transactionMeta\<lparr>status := Signed\<rparr>) s1 of
                  (Inl e, meta1, s2) \<Rightarrow> (Inl e, nonceLock, meta1, s2)
                | (Inr u, meta1, s2) \<Rightarrow>
                    (case signedTx of
                       Inl e \<Rightarrow> (Inl e, nonceLock, meta1, s2)
                     | Inr raw \<Rightarrow> approvePublish env nonceLock meta1 raw s2))))"

text \<open>
  The beginning of the block: the two guards, which release the mutex and fail the
  transaction, the nonce, and the assignments of status, nonce and chain id.
\<close>

definition approveTransactionTry ::
  "Env \<Rightarrow> TransactionMeta \<Rightarrow> Transaction \<Rightarrow> ControllerState \<Rightarrow> TryResult" where
  "approveTransactionTry env transactionMeta t s =
     (case sign env of
        None \<Rightarrow>
          (case failTransaction env transactionMeta (mkError ''No sign method defined.'')
                  (effect MutexRelease s) of
             (r, s') \<Rightarrow> (r, None, transactionMeta, s'))
      | Some signer \<Rightarrow>
          if \<not> truthy (providerChainId env)
          then
            (case failTransaction env transactionMeta (mkError ''No chainId defined.'')
                    (effect MutexRelease s) of
               (r, s') \<Rightarrow> (r, None, transactionMeta, s'))
          else
            (let chainIdNumber = parseInt env (the (providerChainId env));
                 acquired =
                   (if \<not> truthy (tx_nonce t)
                    then
                      (case getNonceLock env (tx_from t) of
                         Inl e \<Rightarrow> Inl e
                       | Inr nextNonce \<Rightarrow>
                           Inr (Some (tx_from t), addHexPrefix (toString16 nextNonce)))
                    else Inr (None, the (tx_nonce t)))
             in case acquired of
                  Inl e \<Rightarrow> (Inl e, None, transactionMeta, s)
                | Inr (nonceLock, nonceToUse) \<Rightarrow>
                    (let s1 = (case nonceLock of
                                 None \<Rightarrow> s
                               | Some a \<Rightarrow> effect (NonceLockAcquire a) s);
                         t1 = t\<lparr>tx_nonce := Some nonceToUse, tx_chainId := Some chainIdNumber\<rparr>;
                         meta1 = transactionMeta\<lparr>status := Approved, transaction := Some t1\<rparr>;
                         s2 = storeInPlace meta1 s1;
                         baseTxParams = \<lparr>params = t1, gasLimit = tx_gas t1, envelopeType = None\<rparr>;
                         txParams =
                           (if isEIP1559Transaction t1
                            then baseTxParams\<lparr>envelopeType := Some 2\<rparr>
                            else baseTxParams)
                     in approveSign env signer nonceLock meta1 txParams (tx_from t) s2)))"

text \<open>
  \<^verbatim>\<open>approveTransaction\<close>: the mutex, the lookup (an id that is not in the list, or a
  record without parameters, throws at the destructuring, before the \<^verbatim>\<open>try\<close>), the
  block, \<^verbatim>\<open>catch\<close> and \<^verbatim>\<open>finally\<close>.
\<close>

definition releaseNonceLock :: "string option \<Rightarrow> ControllerState \<Rightarrow> ControllerState" where
  "releaseNonceLock nonceLock s =
     (case nonceLock of None \<Rightarrow> s | Some a \<Rightarrow> effect (NonceLockRelease a) s)"

definition approveTransaction ::
  "Env \<Rightarrow> string \<Rightarrow> ControllerState \<Rightarrow> (Error + unit) \<times> ControllerState" where
  "approveTransaction env transactionID s =
     (let s0 = effect MutexAcquire s in
      case findIndex (\<lambda>m. transactionID = txId m) (transactions s0) of
        None \<Rightarrow> (Inl (mkTypeError ''Cannot destructure property of undefined''), s0)
      | Some index \<Rightarrow>
          (let transactionMeta = transactions s0 ! index in
           case transaction transactionMeta of
             None \<Rightarrow> (Inl (mkTypeError ''Cannot destructure property of undefined''), s0)
           | Some t \<Rightarrow>
               (case approveTransactionTry env transactionMeta t s0 of
                  (tried, nonceLock, current, s1) \<Rightarrow>
                    (case (case tried of
                             Inl err \<Rightarrow> failTransaction env current err s1
                           | Inr u \<Rightarrow> (Inr (), s1)) of
                       (r, s2) \<Rightarrow> (r, effect MutexRelease (releaseNonceLock nonceLock s2))))))"

definition userRejectedRequest :: "string \<Rightarrow> Error" where
  "userRejectedRequest msg = \<lparr>errorName = ''EthereumProviderError'', message = msg, code = Some 4001\<rparr>"

definition rpcInternal :: "string \<Rightarrow> Error" where
  "rpcInternal msg = \<lparr>errorName = ''EthereumRpcError'', message = msg, code = Some (- 32603)\<rparr>"

definition callbackError :: "bool \<Rightarrow> Error option \<Rightarrow> ControllerState \<Rightarrow> ControllerState" where
  "callbackError resultCallbacks e s = (if resultCallbacks then effect (ResultCallbackError e) s else s)"

definition callbackSuccess :: "bool \<Rightarrow> ControllerState \<Rightarrow> ControllerState" where
  "callbackSuccess resultCallbacks s = (if resultCallbacks then effect ResultCallbackSuccess s else s)"

text \<open>
  The \<^verbatim>\<open>switch\<close> that ends \<^verbatim>\<open>processApproval\<close>. The text that
  \<^verbatim>\<open>JSON.stringify\<close> appends to the message of the last case is left out.
\<close>

definition settleApproval ::
  "string \<Rightarrow> bool \<Rightarrow> ControllerState \<Rightarrow> (Error + string option) \<times> ControllerState" where
  "settleApproval transactionId resultCallbacks s =
     (let unknownProblem = rpcInternal ''MetaMask Tx Signature: Unknown problem: '' in
      case getTransaction s transactionId of
        None \<Rightarrow> (Inl unknownProblem, callbackError resultCallbacks (Some unknownProblem) s)
      | Some finalMeta \<Rightarrow>
          (case status finalMeta of
             Failed \<Rightarrow>
               (case error finalMeta of
                  None \<Rightarrow>
                    (Inl (mkTypeError ''Cannot read properties of undefined''),
                     callbackError resultCallbacks None s)
                | Some e \<Rightarrow>
                    (Inl (rpcInternal (message e)), callbackError resultCallbacks (Some e) s))
           | Cancelled \<Rightarrow>
               (let cancelError = rpcInternal ''User cancelled the transaction'' in
                (Inl cancelError, callbackError resultCallbacks (Some cancelError) s))
           | Submitted \<Rightarrow> (Inr (hash finalMeta), callbackSuccess resultCallbacks s)
           | _ \<Rightarrow> (Inl unknownProblem, callbackError resultCallbacks (Some unknownProblem) s)))"

text \<open>
  \<^verbatim>\<open>processApproval\<close>, whose promise \<^verbatim>\<open>addTransaction\<close> returns as \<^verbatim>\<open>result\<close>. The
  state is the one the controller has when the approval request settles.
\<close>

definition processApproval ::
  "Env \<Rightarrow> TransactionMeta \<Rightarrow> ControllerState \<Rightarrow> (Error + string option) \<times> ControllerState" where
  "processApproval env transactionMeta s =
     (let transactionId = txId transactionMeta;
          s0 = effect (RequestApproval transactionId) s;
          tried =
            (case requestApproval env transactionMeta of
               Inl e \<Rightarrow> (Inl e, False, s0)
             | Inr resultCallbacks \<Rightarrow>
                 (case isTransactionCompleted s0 transactionId of
                    (Some meta, False) \<Rightarrow>
                      (case approveTransaction env transactionId s0 of
                         (r, s1) \<Rightarrow> (r, resultCallbacks, s1))
                  | _ \<Rightarrow> (Inr (), resultCallbacks, s0)))
      in case tried of
           (Inr u, resultCallbacks, s1) \<Rightarrow> settleApproval transactionId resultCallbacks s1
         | (Inl err, resultCallbacks, s1) \<Rightarrow>
             (case isTransactionCompleted s1 transactionId of
                (Some meta, False) \<Rightarrow>
                  if code err = Some 4001
                  then (Inl (userRejectedRequest ''User rejected the transaction''),
                        cancelTransaction env transactionId s1)
                  else
                    (case failTransaction env meta err s1 of
                       (Inl e, s2) \<Rightarrow> (Inl e, s2)
                     | (Inr u, s2) \<Rightarrow> settleApproval transactionId resultCallbacks s2)
              | _ \<Rightarrow> settleApproval transactionId resultCallbacks s1))"

section \<open>Adding, cancelling and speeding up\<close>

text \<open>
  \<^verbatim>\<open>addTransaction\<close>. The item \<^verbatim>\<open>result\<close> of what it returns is the promise of
  \<^verbatim>\<open>processApproval\<close>, here with the outcome that promise settles to; the fields
  \<^verbatim>\<open>deviceConfirmedOn\<close>, \<^verbatim>\<open>verifiedOnBlockchain\<close> and \<^verbatim>\<open>securityAlertResponse\<close> of the
  new record are not modelled.
\<close>

definition addTransaction ::
  "Env \<Rightarrow> Transaction \<Rightarrow> string option \<Rightarrow> ControllerState
     \<Rightarrow> (Error + (Error + string option) \<times> TransactionMeta) \<times> ControllerState" where
  "addTransaction env tx requester s =
     (case getEIP1559Compatibility env of
        Inl e \<Rightarrow> (Inl e, s)
      | Inr isEIP1559Compatible \<Rightarrow>
          (let t = normalizeTransaction env tx in
           case validateTransaction env t of
             Some e \<Rightarrow> (Inl e, s)
           | None \<Rightarrow>
               (let transactionMeta =
                      \<lparr>txId = random env, networkID = providerNetworkId env,
                       chainId = providerChainId env, origin = requester, rawTx = None,
                       status = Unapproved, time = dateNow env, transaction = Some t,
                       hash = None, error = None\<rparr>
                in case updateGas env transactionMeta of
                     Inl e \<Rightarrow> (Inl e, s)
                   | Inr meta1 \<Rightarrow>
                       (case updateGasFees env isEIP1559Compatible meta1 of
                          Inl e \<Rightarrow> (Inl e, s)
                        | Inr meta2 \<Rightarrow>
                            (let s1 = s\<lparr>transactions := trim env (transactions s @ [meta2])\<rparr>;
                                 s2 = emit ''unapprovedTransaction'' meta2 s1
                             in case processApproval env meta2 s2 of
                                  (result, s3) \<Rightarrow> (Inr (result, meta2), s3))))))"

text \<open>
  \<^verbatim>\<open>(values && validateMinimumIncrease(values, minimum)) || fallback\<close>: a value given by
  the caller is validated and, being a non-empty string, is the result; otherwise the
  fallback is.
\<close>

definition validatedOr ::
  "string option \<Rightarrow> string \<Rightarrow> string option \<Rightarrow> Error + string option" where
  "validatedOr fromValues minimum fallback =
     (if truthy fromValues
      then (case validateMinimumIncrease (the fromValues) minimum of
              Inl e \<Rightarrow> Inl e
            | Inr proposed \<Rightarrow> Inr (Some proposed))
      else Inr fallback)"

text \<open>\<^verbatim>\<open>existing && minimum\<close>\<close>

definition andMinimum :: "string option \<Rightarrow> string \<Rightarrow> string option" where
  "andMinimum existing minimum = (if truthy existing then Some minimum else existing)"

text \<open>
  The block that \<^verbatim>\<open>stopTransaction\<close> and \<^verbatim>\<open>speedUpTransaction\<close> both contain, each with
  its rate: the new \<^verbatim>\<open>gasPrice\<close>, \<^verbatim>\<open>maxFeePerGas\<close> and \<^verbatim>\<open>maxPriorityFeePerGas\<close>,
  computed and validated in this order.
\<close>

definition replacementFees ::
  "Rate \<Rightarrow> Transaction \<Rightarrow> GasValues option
     \<Rightarrow> Error + string option \<times> string option \<times> string option" where
  "replacementFees rate t gasValues =
     (let minGasPrice = getIncreasedPriceFromExisting (tx_gasPrice t) rate;
          gasPriceFromValues =
            (if isGasPriceValue gasValues then gv_gasPrice (the gasValues) else None)
      in case validatedOr gasPriceFromValues minGasPrice (Some minGasPrice) of
           Inl e \<Rightarrow> Inl e
         | Inr newGasPrice \<Rightarrow>
             (let existingMaxFeePerGas = tx_maxFeePerGas t;
                  minMaxFeePerGas = getIncreasedPriceFromExisting existingMaxFeePerGas rate;
                  maxFeePerGasValues =
                    (if isFeeMarketEIP1559Values gasValues
                     then gv_maxFeePerGas (the gasValues) else None)
              in case validatedOr maxFeePerGasValues minMaxFeePerGas
                        (andMinimum existingMaxFeePerGas minMaxFeePerGas) of
                   Inl e \<Rightarrow> Inl e
                 | Inr newMaxFeePerGas \<Rightarrow>
                     (let existingMaxPriorityFeePerGas = tx_maxPriorityFeePerGas t;
                          minMaxPriorityFeePerGas =
                            getIncreasedPriceFromExisting existingMaxPriorityFeePerGas rate;
                          maxPriorityFeePerGasValues =
                            (if isFeeMarketEIP1559Values gasValues
                             then gv_maxPriorityFeePerGas (the gasValues) else None)
                      in case validatedOr maxPriorityFeePerGasValues minMaxPriorityFeePerGas
                                (andMinimum existingMaxPriorityFeePerGas
                                   minMaxPriorityFeePerGas) of
                           Inl e \<Rightarrow> Inl e
                         | Inr newMaxPriorityFeePerGas \<Rightarrow>
                             Inr (newGasPrice, newMaxFeePerGas, newMaxPriorityFeePerGas))))"

text \<open>A transaction object with \<^verbatim>\<open>from\<close> only, to build object literals from.\<close>

definition onlyFrom :: "string \<Rightarrow> Transaction" where
  "onlyFrom sender =
     \<lparr>tx_chainId = None, tx_data = None, tx_from = sender, tx_gas = None, tx_gasPrice = None,
      tx_nonce = None, tx_to = None, tx_value = None, tx_maxFeePerGas = None,
      tx_maxPriorityFeePerGas = None, tx_estimatedBaseFee = None, tx_type = None\<rparr>"

text \<open>
  Signing and sending the replacement: \<^verbatim>\<open>prepareUnsignedEthTx\<close>, \<^verbatim>\<open>sign\<close>,
  \<^verbatim>\<open>serialize\<close> and \<^verbatim>\<open>sendRawTransaction\<close>, as both functions do. The result is the
  answer of the node.
\<close>

definition signAndSend ::
  "Env \<Rightarrow> (TxParams \<Rightarrow> string \<Rightarrow> Error + (Error + string)) \<Rightarrow> TxParams \<Rightarrow> string
     \<Rightarrow> ControllerState \<Rightarrow> (Error + string) \<times> ControllerState" where
  "signAndSend env signer txParams sender s =
     (case prepareUnsignedEthTx env txParams of
        Some e \<Rightarrow> (Inl e, s)
      | None \<Rightarrow>
          (let s1 = effect (SignCall txParams sender) s in
           case signer txParams sender of
             Inl e \<Rightarrow> (Inl e, s1)
           | Inr (Inl e) \<Rightarrow> (Inl e, s1)
           | Inr (Inr raw) \<Rightarrow>
               (let s2 = effect (SendRawTransaction raw) s1 in
                case sendRawTransaction env raw of
                  Inl e \<Rightarrow> (Inl e, s2)
                | Inr h \<Rightarrow> (Inr h, s2))))"

definition noSignMethod :: Error where
  "noSignMethod = mkError ''No sign method defined.''"

definition stopTransaction ::
  "Env \<Rightarrow> string \<Rightarrow> GasValues option \<Rightarrow> ControllerState \<Rightarrow> (Error + unit) \<times> ControllerState" where
  "stopTransaction env transactionID gasValues s =
     (case (case gasValues of None \<Rightarrow> None | Some g \<Rightarrow> validateGasValues g) of
        Some e \<Rightarrow> (Inl e, s)
      | None \<Rightarrow>
          (case find (\<lambda>m. txId m = transactionID) (transactions s) of
             None \<Rightarrow> (Inr (), s)
           | Some transactionMeta \<Rightarrow>
               (case sign env of
                  None \<Rightarrow> (Inl noSignMethod, s)
                | Some signer \<Rightarrow>
                    (case transaction transactionMeta of
                       None \<Rightarrow> (Inl (mkTypeError ''Cannot read properties of undefined''), s)
                     | Some t \<Rightarrow>
                         (case replacementFees CANCEL_RATE t gasValues of
                            Inl e \<Rightarrow> (Inl e, s)
                          | Inr (newGasPrice, newMaxFeePerGas, newMaxPriorityFeePerGas) \<Rightarrow>
                              (let txParams =
                                     (if truthy newMaxFeePerGas \<and> truthy newMaxPriorityFeePerGas
                                      then
                                        \<lparr>params = (onlyFrom (tx_from t))
                                           \<lparr>tx_maxFeePerGas := newMaxFeePerGas,
                                            tx_maxPriorityFeePerGas := newMaxPriorityFeePerGas,
                                            tx_nonce := tx_nonce t, tx_to := Some (tx_from t),
                                            tx_value := Some ''0x0''\<rparr>,
                                         gasLimit = tx_gas t, envelopeType = Some 2\<rparr>
                                      else
                                        \<lparr>params = (onlyFrom (tx_from t))
                                           \<lparr>tx_gasPrice := newGasPrice, tx_nonce := tx_nonce t,
                                            tx_to := Some (tx_from t), tx_value := Some ''0x0''\<rparr>,
                                         gasLimit = tx_gas t, envelopeType = None\<rparr>)
                               in case signAndSend env signer txParams (tx_from t) s of
                                    (Inl e, s1) \<Rightarrow> (Inl e, s1)
                                  | (Inr h, s1) \<Rightarrow>
                                      (let cancelled = transactionMeta\<lparr>status := Cancelled\<rparr> in
                                       (Inr (),
                                        emit (finishedEvent cancelled) cancelled
                                          (storeInPlace cancelled s1)))))))))"

definition speedUpTransaction ::
  "Env \<Rightarrow> string \<Rightarrow> GasValues option \<Rightarrow> ControllerState \<Rightarrow> (Error + unit) \<times> ControllerState" where
  "speedUpTransaction env transactionID gasValues s =
     (case (case gasValues of None \<Rightarrow> None | Some g \<Rightarrow> validateGasValues g) of
        Some e \<Rightarrow> (Inl e, s)
      | None \<Rightarrow>
          (case find (\<lambda>m. txId m = transactionID) (transactions s) of
             None \<Rightarrow> (Inr (), s)
           | Some transactionMeta \<Rightarrow>
               (case sign env of
                  None \<Rightarrow> (Inl noSignMethod, s)
                | Some signer \<Rightarrow>
                    (case transaction transactionMeta of
                       None \<Rightarrow> (Inl (mkTypeError ''Cannot read properties of undefined''), s)
                     | Some t \<Rightarrow>
                         (case replacementFees SPEED_UP_RATE t gasValues of
                            Inl e \<Rightarrow> (Inl e, s)
                          | Inr (newGasPrice, newMaxFeePerGas, newMaxPriorityFeePerGas) \<Rightarrow>
                              (let feeMarket = truthy newMaxFeePerGas \<and> truthy newMaxPriorityFeePerGas;
                                   txParams =
                                     (if feeMarket
                                      then
                                        \<lparr>params = t\<lparr>tx_maxFeePerGas := newMaxFeePerGas,
                                                    tx_maxPriorityFeePerGas := newMaxPriorityFeePerGas\<rparr>,
                                         gasLimit = tx_gas t, envelopeType = Some 2\<rparr>
                                      else
                                        \<lparr>params = t\<lparr>tx_gasPrice := newGasPrice\<rparr>,
                                         gasLimit = tx_gas t, envelopeType = None\<rparr>)
                               in case signAndSend env signer txParams (tx_from t) s of
                                    (Inl e, s1) \<Rightarrow> (Inl e, s1)
                                  | (Inr h, s1) \<Rightarrow>
                                      (let baseTransactionMeta =
                                             transactionMeta\<lparr>txId := random env, time := dateNow env,
                                                              hash := Some h\<rparr>;
                                           newTransactionMeta =
                                             (if feeMarket
                                              then baseTransactionMeta
                                                     \<lparr>transaction :=
                                                        Some (t\<lparr>tx_maxFeePerGas := newMaxFeePerGas,
                                                                tx_maxPriorityFeePerGas :=
                                                                  newMaxPriorityFeePerGas\<rparr>)\<rparr>
                                              else baseTransactionMeta
                                                     \<lparr>transaction := Some (t\<lparr>tx_gasPrice := newGasPrice\<rparr>)\<rparr>);
                                           s2 = s1\<lparr>transactions :=
                                                     trim env (transactions s1 @ [newTransactionMeta])\<rparr>
                                       in (Inr (),
                                           emit (txId transactionMeta @ '':speedup'') newTransactionMeta
                                             s2))))))))"

section \<open>Notions of the properties and example inputs\<close>

definition descending :: "TransactionMeta list \<Rightarrow> bool" where
  "descending xs = sorted_wrt (\<lambda>a b. time a > time b) xs"

text \<open>
  A legacy transfer with nonce 1 and the gas price of the tests, and three records: the
  transfer submitted on 2 January 1970, a confirmed record of the same nonce, network and
  day made a millisecond later, and a confirmed record of nonce 2 made the day after.
\<close>

definition legacyTransfer :: Transaction where
  "legacyTransfer =
     (onlyFrom ''0x1678a085c290ebd122dc42cba69373b5953b831d'')
       \<lparr>tx_to := Some ''0x3244e191f1b4903970224322180f1fbbc415696b'', tx_gas := Some ''0x5208'',
        tx_gasPrice := Some ''0x50fd51da'', tx_nonce := Some ''0x1'', tx_value := Some ''0x0''\<rparr>"

definition submittedRecord :: TransactionMeta where
  "submittedRecord =
     \<lparr>txId = ''id-1'', networkID = Some ''1'', chainId = Some ''0x1'', origin = None,
      rawTx = None, status = Submitted, time = 100000000, transaction = Some legacyTransfer,
      hash = Some ''0xaa'', error = None\<rparr>"

definition confirmedSibling :: TransactionMeta where
  "confirmedSibling =
     submittedRecord\<lparr>txId := ''id-2'', status := Confirmed, time := 100000001,
                     hash := Some ''0xbb''\<rparr>"

definition confirmedLater :: TransactionMeta where
  "confirmedLater =
     submittedRecord\<lparr>txId := ''id-3'', status := Confirmed, time := 200000000,
                     transaction := Some (legacyTransfer\<lparr>tx_nonce := Some ''0x2''\<rparr>),
                     hash := Some ''0xcc''\<rparr>"

text \<open>Two unapproved records made in the same millisecond.\<close>

definition unapprovedFirst :: TransactionMeta where
  "unapprovedFirst =
     submittedRecord\<lparr>txId := ''id-4'', status := Unapproved, time := 300000000,
                     transaction := Some (legacyTransfer\<lparr>tx_nonce := None\<rparr>), hash := None\<rparr>"

definition unapprovedSecond :: TransactionMeta where
  "unapprovedSecond = unapprovedFirst\<lparr>txId := ''id-5''\<rparr>"

text \<open>
  Collaborators for the examples: a signer that returns a transaction serialized as
  \<^verbatim>\<open>0xf86c\<close>, a node that answers the hash \<^verbatim>\<open>0x1337\<close>, the chain \<^verbatim>\<open>0x1\<close>,
  parameters that are already normal, a validation that requires \<^verbatim>\<open>from\<close>, an
  approval that is granted, and the default limit 40.
\<close>

definition exampleSigner :: "TxParams \<Rightarrow> string \<Rightarrow> Error + (Error + string)" where
  "exampleSigner txParams sender = Inr (Inr ''0xf86c'')"

definition fromRequired :: "Transaction \<Rightarrow> Error option" where
  "fromRequired t = (if tx_from t = [] then Some (mkError ''Invalid from address'') else None)"

definition exampleEnv :: Env where
  "exampleEnv =
     \<lparr>sign = Some exampleSigner, prepareUnsignedEthTx = (\<lambda>p. None),
      sendRawTransaction = (\<lambda>raw. Inr ''0x1337''), getNonceLock = (\<lambda>a. Inr 12),
      providerChainId = Some ''0x1'', parseInt = (\<lambda>str. Num 1), txHistoryLimit = 40,
      toDateString = toDateStringUTC, normalizeTransaction = (\<lambda>t. t),
      validateTransaction = fromRequired, requestApproval = (\<lambda>m. Inr True),
      providerNetworkId = Some ''1'', getEIP1559Compatibility = Inr False, updateGas = Inr,
      updateGasFees = (\<lambda>eip1559. Inr),
      random = ''id-new'', dateNow = 400000000\<rparr>"

definition exampleState :: ControllerState where
  "exampleState = \<lparr>transactions = [submittedRecord], effects = []\<rparr>"

text \<open>Gas values of a caller: none, a gas price of 1 wei, and fee-market values of 5 wei.\<close>

definition noGasValues :: GasValues where
  "noGasValues = \<lparr>gv_gasPrice = None, gv_maxFeePerGas = None, gv_maxPriorityFeePerGas = None\<rparr>"

definition lowGasPrice :: GasValues where
  "lowGasPrice = noGasValues\<lparr>gv_gasPrice := Some ''0x1''\<rparr>"

definition feeMarketOverride :: GasValues where
  "feeMarketOverride =
     noGasValues\<lparr>gv_maxFeePerGas := Some ''0x5'', gv_maxPriorityFeePerGas := Some ''0x5''\<rparr>"

text \<open>
  An override that is below the computed minimum: the value the caller gives for a fee
  field reads lower than \<^verbatim>\<open>getIncreasedPriceFromExisting\<close> of the record's value for that
  field.
\<close>

definition belowMinimum :: "Rate \<Rightarrow> string option \<Rightarrow> string option \<Rightarrow> bool" where
  "belowMinimum rate existing override =
     (case override of
        None \<Rightarrow> False
      | Some proposed \<Rightarrow>
          convertHexToDecimal (Some proposed)
            < convertHexToDecimal (Some (getIncreasedPriceFromExisting existing rate)))"

definition overrideBelowMinimum :: "Rate \<Rightarrow> Transaction \<Rightarrow> GasValues \<Rightarrow> bool" where
  "overrideBelowMinimum rate t g \<longleftrightarrow>
     belowMinimum rate (tx_gasPrice t) (gv_gasPrice g)
     \<or> belowMinimum rate (tx_maxFeePerGas t) (gv_maxFeePerGas g)
     \<or> belowMinimum rate (tx_maxPriorityFeePerGas t) (gv_maxPriorityFeePerGas g)"

text \<open>
  The gas price \<^verbatim>\<open>speedUpTransaction\<close> is to give the new record of a legacy transaction:
  the override of the caller when there is one, otherwise the bumped price.
\<close>

definition speedUpGasPrice :: "Transaction \<Rightarrow> GasValues option \<Rightarrow> string" where
  "speedUpGasPrice t gasValues =
     (case gasValues of
        None \<Rightarrow> getIncreasedPriceFromExisting (tx_gasPrice t) SPEED_UP_RATE
      | Some g \<Rightarrow>
          (case gv_gasPrice g of
             None \<Rightarrow> getIncreasedPriceFromExisting (tx_gasPrice t) SPEED_UP_RATE
           | Some p \<Rightarrow> p))"

text \<open>
  The hash of the record with the given id when that record is in the state with the
  status \<^verbatim>\<open>submitted\<close>, which is what the \<^verbatim>\<open>switch\<close> of \<^verbatim>\<open>processApproval\<close> tests.
\<close>

definition submittedHash :: "ControllerState \<Rightarrow> string \<Rightarrow> string option option" where
  "submittedHash s transactionID =
     (case getTransaction s transactionID of
        None \<Rightarrow> None
      | Some m \<Rightarrow> if status m = Submitted then Some (hash m) else None)"

text \<open>
  More examples: the transfer before it has a nonce, the record \<^verbatim>\<open>addTransaction\<close> makes of
  it, an approval service that answers with the user-rejection code, a state with an
  unapproved record, a signer that throws, and a state that holds a record without
  \<^verbatim>\<open>from\<close>, which the validation of the examples rejects.
\<close>

definition newTransfer :: Transaction where
  "newTransfer = legacyTransfer\<lparr>tx_nonce := None\<rparr>"

definition addedRecord :: TransactionMeta where
  "addedRecord =
     \<lparr>txId = ''id-new'', networkID = Some ''1'', chainId = Some ''0x1'', origin = None,
      rawTx = None, status = Unapproved, time = 400000000, transaction = Some newTransfer,
      hash = None, error = None\<rparr>"

definition userDenied :: Error where
  "userDenied = userRejectedRequest ''User denied transaction signature.''"

definition rejectingEnv :: Env where
  "rejectingEnv = exampleEnv\<lparr>requestApproval := (\<lambda>m. Inl userDenied)\<rparr>"

definition pendingState :: ControllerState where
  "pendingState = \<lparr>transactions = [submittedRecord, unapprovedFirst], effects = []\<rparr>"

definition signerDown :: Error where
  "signerDown = mkError ''Ledger device: locked''"

definition failingSigner :: "TxParams \<Rightarrow> string \<Rightarrow> Error + (Error + string)" where
  "failingSigner txParams sender = Inl signerDown"

definition failingSignerEnv :: Env where
  "failingSignerEnv = exampleEnv\<lparr>sign := Some failingSigner\<rparr>"

definition noSender :: TransactionMeta where
  "noSender = unapprovedFirst\<lparr>txId := ''id-6'', transaction := Some (newTransfer\<lparr>tx_from := []\<rparr>)\<rparr>"

definition strayState :: ControllerState where
  "strayState = \<lparr>transactions = [noSender], effects = []\<rparr>"

text \<open>The addresses whose nonce lock a list of effects takes, and those it releases.\<close>

fun acquiredLocks :: "Effect list \<Rightarrow> string list" where
  "acquiredLocks [] = []"
| "acquiredLocks (NonceLockAcquire a # es) = a # acquiredLocks es"
| "acquiredLocks (e # es) = acquiredLocks es"

fun releasedLocks :: "Effect list \<Rightarrow> string list" where
  "releasedLocks [] = []"
| "releasedLocks (NonceLockRelease a # es) = a # releasedLocks es"
| "releasedLocks (e # es) = releasedLocks es"

definition lockList :: "string option \<Rightarrow> string list" where
  "lockList nonceLock = (case nonceLock of None \<Rightarrow> [] | Some a \<Rightarrow> [a])"

text \<open>
  The record \<^verbatim>\<open>failTransaction\<close> stores and emits for a record with the parameters
  \<open>t\<close>: status \<^verbatim>\<open>failed\<close>, the error, and the parameters normalized.
\<close>

definition failedRecord :: "Env \<Rightarrow> TransactionMeta \<Rightarrow> Transaction \<Rightarrow> Error \<Rightarrow> TransactionMeta" where
  "failedRecord env transactionMeta t err =
     transactionMeta\<lparr>error := Some err, status := Failed,
                      transaction := Some (normalizeTransaction env t)\<rparr>"

text \<open>The parameters of the unapproved record once approved with the nonce 12 on chain 1.\<close>

definition approvedTransfer :: Transaction where
  "approvedTransfer = newTransfer\<lparr>tx_nonce := Some ''0xc'', tx_chainId := Some (Num 1)\<rparr>"

section \<open>Properties of the trim policy\<close>

lemma mset_insertByTime: "mset (insertByTime x ys) = add_mset x (mset ys)"
  by (induction ys) simp_all

lemma mset_foldl_insertByTime:
  "mset (foldl (\<lambda>acc x. insertByTime x acc) acc xs) = mset acc + mset xs"
  by (induction xs arbitrary: acc) (simp_all add: mset_insertByTime)

lemma mset_sortDescending: "mset (sortDescending xs) = mset xs"
  by (simp add: sortDescending_def mset_foldl_insertByTime)

lemma count_filterTxsToKeep_nonfinal:
  assumes "\<not> isFinalState (status tx)" and "transaction tx \<noteq> None"
  shows "count (mset (filterTxsToKeep d l seen xs)) tx = count (mset xs) tx"
  using assms
proof (induction xs arbitrary: seen)
  case Nil
  show ?case by simp
next
  case (Cons x xs)
  show ?case
  proof (cases "x = tx")
    case True
    with Cons show ?thesis by (auto simp: Let_def)
  next
    case False
    with Cons show ?thesis by (simp add: Let_def split: option.splits)
  qed
qed

lemma set_filterTxsToKeep: "set (filterTxsToKeep d l seen xs) \<subseteq> set xs"
  by (induction xs arbitrary: seen) (auto simp: Let_def split: option.splits)

lemma set_trim_subset: "set (trimTransactionsForState d l txs) \<subseteq> set txs"
proof -
  have "set (sortDescending txs) = set txs"
    by (metis mset_sortDescending set_mset_mset)
  then show ?thesis
    using set_filterTxsToKeep [of d l "[]" "sortDescending txs"]
    by (simp add: trimTransactionsForState_def)
qed

text \<open>
  Claim C2. For every list of records and every limit, the trim keeps every record whose
  status is not final and whose transaction parameters are present: such a record occurs
  in the result as many times as in the list, whatever the limit and the calendar.
\<close>

theorem trim_keeps_nonfinal:
  assumes "\<not> isFinalState (status tx)" and "transaction tx \<noteq> None"
  shows "count (mset (trimTransactionsForState d l txs)) tx = count (mset txs) tx"
proof -
  have "count (mset (trimTransactionsForState d l txs)) tx
        = count (mset (filterTxsToKeep d l [] (sortDescending txs))) tx"
    by (simp add: trimTransactionsForState_def)
  also have "\<dots> = count (mset (sortDescending txs)) tx"
    using assms by (rule count_filterTxsToKeep_nonfinal)
  also have "\<dots> = count (mset txs) tx"
    by (simp add: mset_sortDescending)
  finally show ?thesis .
qed

theorem trim_keeps_nonfinal_witness:
  "count (mset (trimTransactionsForState toDateStringUTC 1
      [submittedRecord, confirmedSibling, confirmedLater])) submittedRecord = 1"
proof -
  have a: "\<not> isFinalState (status submittedRecord)" by code_simp
  have b: "transaction submittedRecord \<noteq> None" by code_simp
  have c: "count (mset [submittedRecord, confirmedSibling, confirmedLater]) submittedRecord = 1"
    by code_simp
  show ?thesis
    using trim_keeps_nonfinal [OF a b, of toDateStringUTC 1
        "[submittedRecord, confirmedSibling, confirmedLater]"] c
    by simp
qed

text \<open>
  Claim C5. The trim is claimed never to split the records of one key. With the limit 1,
  the submitted record and its confirmed sibling have the same key (nonce 0x1, chain 0x1,
  2 January 1970); the confirmed record of the next day takes the only place, the
  confirmed sibling, met first, is dropped, and the submitted record, met next, is kept
  because it is not final.
\<close>

theorem trim_splits_group:
  "nonceNetworkKey toDateStringUTC submittedRecord legacyTransfer
     = nonceNetworkKey toDateStringUTC confirmedSibling legacyTransfer
   \<and> transaction submittedRecord = Some legacyTransfer
   \<and> transaction confirmedSibling = Some legacyTransfer
   \<and> trimTransactionsForState toDateStringUTC 1
        [submittedRecord, confirmedSibling, confirmedLater]
     = [submittedRecord, confirmedLater]"
  by code_simp

section \<open>Idempotence of the trim policy\<close>

lemma filterTxsToKeep_idem:
  "filterTxsToKeep d l seen (filterTxsToKeep d l seen xs) = filterTxsToKeep d l seen xs"
  by (induction xs arbitrary: seen) (auto simp: Let_def split: option.splits)

lemma set_insertByTime: "set (insertByTime x ys) = insert x (set ys)"
  by (induction ys) auto

lemma descending_insertByTime:
  assumes "descending ys" and "\<forall>y \<in> set ys. time y \<noteq> time x"
  shows "descending (insertByTime x ys)"
  using assms
  by (induction ys) (auto simp: descending_def compareTime_def set_insertByTime)

lemma descending_foldl:
  assumes "descending acc" and "distinct (map time (acc @ xs))"
  shows "descending (foldl (\<lambda>acc x. insertByTime x acc) acc xs)"
  using assms
proof (induction xs arbitrary: acc)
  case Nil
  then show ?case by simp
next
  case (Cons x xs)
  have d: "descending (insertByTime x acc)"
  proof (rule descending_insertByTime)
    show "descending acc" by (rule Cons.prems(1))
    show "\<forall>y \<in> set acc. time y \<noteq> time x"
      using Cons.prems(2) by (auto simp: image_iff)
  qed
  have "mset (map time (insertByTime x acc @ xs)) = mset (map time (acc @ x # xs))"
    by (simp add: mset_insertByTime)
  then have "distinct (map time (insertByTime x acc @ xs))"
    using Cons.prems(2) by (metis mset_eq_imp_distinct_iff)
  with d show ?case using Cons.IH by simp
qed

lemma descending_sortDescending:
  "distinct (map time xs) \<Longrightarrow> descending (sortDescending xs)"
  using descending_foldl [of "[]" xs] by (simp add: sortDescending_def descending_def)

lemma descending_filterTxsToKeep:
  "descending xs \<Longrightarrow> descending (filterTxsToKeep d l seen xs)"
proof (induction xs arbitrary: seen)
  case Nil
  then show ?case by simp
next
  case (Cons x xs)
  then have "descending xs" and gt: "\<forall>y \<in> set xs. time x > time y"
    by (auto simp: descending_def)
  then have IH: "\<And>seen. descending (filterTxsToKeep d l seen xs)"
    using Cons.IH by simp
  have "\<And>seen. \<forall>y \<in> set (filterTxsToKeep d l seen xs). time x > time y"
    using gt set_filterTxsToKeep by blast
  with IH show ?case
    by (auto simp: descending_def Let_def split: option.splits)
qed

lemma insertByTime_front:
  "\<forall>y \<in> set ys. time x > time y \<Longrightarrow> insertByTime x ys = x # ys"
  by (cases ys) (auto simp: compareTime_def)

lemma sortDescending_rev:
  "descending ys \<Longrightarrow> sortDescending (rev ys) = ys"
proof (induction ys)
  case Nil
  show ?case by (simp add: sortDescending_def)
next
  case (Cons y ys)
  then have "descending ys" and gt: "\<forall>z \<in> set ys. time y > time z"
    by (auto simp: descending_def)
  then have "sortDescending (rev ys) = ys" using Cons.IH by simp
  then show ?case
    using gt by (simp add: sortDescending_def insertByTime_front)
qed

text \<open>
  Claim C8, as stated: trimming the result of a trim returns that result, for every list.
  Two unapproved records made in the same millisecond refute it: the comparator never
  reports them equal, the sort leaves them in the order of the list, the reversal that
  ends the trim exchanges them, and the second trim exchanges them again.
\<close>

theorem trim_twice_differs:
  "trimTransactionsForState toDateStringUTC 40
     (trimTransactionsForState toDateStringUTC 40 [unapprovedFirst, unapprovedSecond])
   \<noteq> trimTransactionsForState toDateStringUTC 40 [unapprovedFirst, unapprovedSecond]"
  by code_simp

text \<open>
  Claim C8, amended: when the records of the list have pairwise different times, trimming
  the result of a trim returns that result, the same records in the same order. On such
  a list the comparator is a strict order, so the order of the sort is the same in every
  engine.
\<close>

theorem trim_idempotent_distinct_times:
  assumes "distinct (map time txs)"
  shows "trimTransactionsForState d l (trimTransactionsForState d l txs)
         = trimTransactionsForState d l txs"
proof -
  let ?kept = "filterTxsToKeep d l [] (sortDescending txs)"
  have "descending ?kept"
    using assms by (intro descending_filterTxsToKeep descending_sortDescending)
  then have "sortDescending (rev ?kept) = ?kept"
    by (rule sortDescending_rev)
  then show ?thesis
    by (simp add: trimTransactionsForState_def filterTxsToKeep_idem)
qed

theorem trim_idempotent_witness:
  "distinct (map time [submittedRecord, confirmedSibling, confirmedLater])
   \<and> trimTransactionsForState toDateStringUTC 1
        (trimTransactionsForState toDateStringUTC 1
           [submittedRecord, confirmedSibling, confirmedLater])
     = [submittedRecord, confirmedLater]"
proof -
  have d: "distinct (map time [submittedRecord, confirmedSibling, confirmedLater])"
    by code_simp
  have e: "trimTransactionsForState toDateStringUTC 1
             [submittedRecord, confirmedSibling, confirmedLater]
           = [submittedRecord, confirmedLater]"
    by code_simp
  show ?thesis
    using trim_idempotent_distinct_times [OF d, of toDateStringUTC 1] d e by simp
qed

section \<open>The fee bump\<close>



section \<open>Cancelling and speeding up: validation before signing\<close>

lemma find_absent: "x \<notin> f ` set xs \<Longrightarrow> find (\<lambda>m. f m = x) xs = None"
  by (induction xs) auto

text \<open>
  Claim C10. When no record of the store has the id, and the gas values given, if any,
  pass the validation of their format, \<^verbatim>\<open>stopTransaction\<close> and \<^verbatim>\<open>speedUpTransaction\<close>
  return normally and leave the state as it was, the list of records and the effects (no
  signing, no broadcast, no event), whatever the collaborators, also with no sign method.
\<close>

theorem unknown_id_returns:
  assumes "transactionID \<notin> txId ` set (transactions s)"
      and "\<forall>g. gasValues = Some g \<longrightarrow> validateGasValues g = None"
  shows "stopTransaction env transactionID gasValues s = (Inr (), s)
         \<and> speedUpTransaction env transactionID gasValues s = (Inr (), s)"
proof -
  have v: "(case gasValues of None \<Rightarrow> None | Some g \<Rightarrow> validateGasValues g) = None"
    using assms(2) by (cases gasValues) simp_all
  have f: "find (\<lambda>m. txId m = transactionID) (transactions s) = None"
    using assms(1) by (rule find_absent)
  show ?thesis
    by (simp add: stopTransaction_def speedUpTransaction_def v f)
qed

theorem unknown_id_returns_witness:
  "stopTransaction (exampleEnv\<lparr>sign := None\<rparr>) ''id-9'' (Some lowGasPrice) exampleState
     = (Inr (), exampleState)
   \<and> speedUpTransaction (exampleEnv\<lparr>sign := None\<rparr>) ''id-9'' (Some lowGasPrice) exampleState
     = (Inr (), exampleState)"
proof -
  have a: "''id-9'' \<notin> txId ` set (transactions exampleState)" by code_simp
  have "validateGasValues lowGasPrice = None" by code_simp
  then have b: "\<forall>g. Some lowGasPrice = Some g \<longrightarrow> validateGasValues g = None" by simp
  show ?thesis
    using unknown_id_returns [OF a b] by simp
qed

lemma validatedOr_error:
  assumes "validatedOr v minimum fallback = Inl e"
  shows "\<exists>p m. p < m \<and> e = minimumIncreaseError p m"
proof -
  from assms have "\<not> convertHexToDecimal (Some minimum) \<le> convertHexToDecimal (Some (the v))"
    and "e = minimumIncreaseError (convertHexToDecimal (Some (the v)))
               (convertHexToDecimal (Some minimum))"
    by (auto simp: validatedOr_def validateMinimumIncrease_def Let_def split: if_splits)
  then show ?thesis
    by (intro exI [of _ "convertHexToDecimal (Some (the v))"]
          exI [of _ "convertHexToDecimal (Some minimum)"]) simp
qed

lemma isHexString_truthy: "isHexString p \<Longrightarrow> truthy (Some p)"
  by (auto simp: isHexString_def truthy_def)

lemma validatedOr_below:
  assumes "isHexString p"
      and "convertHexToDecimal (Some p) < convertHexToDecimal (Some minimum)"
  shows "validatedOr (Some p) minimum fallback \<noteq> Inr r"
  using assms isHexString_truthy [OF assms(1)]
  by (simp add: validatedOr_def validateMinimumIncrease_def Let_def)

lemma validateGasValues_fields:
  assumes "validateGasValues g = None"
  shows "(\<forall>p. gv_gasPrice g = Some p \<longrightarrow> isHexString p)
         \<and> (\<forall>p. gv_maxFeePerGas g = Some p \<longrightarrow> isHexString p)
         \<and> (\<forall>p. gv_maxPriorityFeePerGas g = Some p \<longrightarrow> isHexString p)"
  using assms
  by (auto simp: validateGasValues_def validateGasValue_def split: option.splits if_splits)

lemma replacementFees_error:
  assumes "replacementFees rate t gasValues = Inl e"
  shows "\<exists>p m. p < m \<and> e = minimumIncreaseError p m"
  using assms
  unfolding replacementFees_def Let_def
  by (auto split: sum.splits dest: validatedOr_error)

lemma replacementFees_below:
  assumes "validateGasValues g = None" and "overrideBelowMinimum rate t g"
  shows "replacementFees rate t (Some g) \<noteq> Inr r"
proof
  assume ok: "replacementFees rate t (Some g) = Inr r"
  note hex = validateGasValues_fields [OF assms(1)]
  from assms(2) consider
      (price) "belowMinimum rate (tx_gasPrice t) (gv_gasPrice g)"
    | (fee) "belowMinimum rate (tx_maxFeePerGas t) (gv_maxFeePerGas g)"
    | (priority) "belowMinimum rate (tx_maxPriorityFeePerGas t) (gv_maxPriorityFeePerGas g)"
    by (auto simp: overrideBelowMinimum_def)
  then show False
  proof cases
    case price
    then obtain p where p: "gv_gasPrice g = Some p"
      and lt: "convertHexToDecimal (Some p)
               < convertHexToDecimal (Some (getIncreasedPriceFromExisting (tx_gasPrice t) rate))"
      by (auto simp: belowMinimum_def split: option.splits)
    have "isHexString p" using hex p by simp
    from validatedOr_below [OF this lt] ok p show False
      unfolding replacementFees_def Let_def
      by (auto simp: isGasPriceValue_def split: sum.splits)
  next
    case fee
    then obtain p where p: "gv_maxFeePerGas g = Some p"
      and lt: "convertHexToDecimal (Some p)
               < convertHexToDecimal (Some (getIncreasedPriceFromExisting (tx_maxFeePerGas t) rate))"
      by (auto simp: belowMinimum_def split: option.splits)
    have "isHexString p" using hex p by simp
    from validatedOr_below [OF this lt] ok p show False
      unfolding replacementFees_def Let_def
      by (auto simp: isFeeMarketEIP1559Values_def split: sum.splits)
  next
    case priority
    then obtain p where p: "gv_maxPriorityFeePerGas g = Some p"
      and lt: "convertHexToDecimal (Some p)
               < convertHexToDecimal
                   (Some (getIncreasedPriceFromExisting (tx_maxPriorityFeePerGas t) rate))"
      by (auto simp: belowMinimum_def split: option.splits)
    have "isHexString p" using hex p by simp
    from validatedOr_below [OF this lt] ok p show False
      unfolding replacementFees_def Let_def
      by (auto simp: isFeeMarketEIP1559Values_def split: sum.splits)
  qed
qed

lemma replacementFees_below_error:
  assumes "validateGasValues g = None" and "overrideBelowMinimum rate t g"
  shows "\<exists>p m. p < m \<and> replacementFees rate t (Some g) = Inl (minimumIncreaseError p m)"
proof (cases "replacementFees rate t (Some g)")
  case (Inl e)
  then show ?thesis using replacementFees_error [OF Inl] by auto
next
  case (Inr r)
  then show ?thesis using replacementFees_below [OF assms] by simp
qed

text \<open>
  Claim C7, amended. On a record of the store that has parameters, with gas values that
  pass the validation of their format, an override below the computed minimum (the rate
  1.5 for \<^verbatim>\<open>stopTransaction\<close>, 1.1 for \<^verbatim>\<open>speedUpTransaction\<close>) makes the call throw: the
  minimum-increase error when a sign method is configured, the error
  \<^verbatim>\<open>No sign method defined.\<close> when none is. In both cases the state is the one before
  the call: nothing was signed or sent, and the list of records is unchanged.
\<close>

theorem low_override_rejected:
  assumes "find (\<lambda>m. txId m = transactionID) (transactions s) = Some transactionMeta"
      and "transaction transactionMeta = Some t"
      and "validateGasValues g = None"
  shows "(overrideBelowMinimum CANCEL_RATE t g \<longrightarrow>
            (case sign env of
               None \<Rightarrow> stopTransaction env transactionID (Some g) s = (Inl noSignMethod, s)
             | Some signer \<Rightarrow>
                 (\<exists>p m. p < m \<and> stopTransaction env transactionID (Some g) s
                                   = (Inl (minimumIncreaseError p m), s))))
         \<and> (overrideBelowMinimum SPEED_UP_RATE t g \<longrightarrow>
            (case sign env of
               None \<Rightarrow> speedUpTransaction env transactionID (Some g) s = (Inl noSignMethod, s)
             | Some signer \<Rightarrow>
                 (\<exists>p m. p < m \<and> speedUpTransaction env transactionID (Some g) s
                                   = (Inl (minimumIncreaseError p m), s))))"
proof (cases "sign env")
  case None
  then show ?thesis
    using assms by (simp add: stopTransaction_def speedUpTransaction_def)
next
  case (Some signer)
  have stop: "\<exists>p m. p < m \<and> stopTransaction env transactionID (Some g) s
                                = (Inl (minimumIncreaseError p m), s)"
    if "overrideBelowMinimum CANCEL_RATE t g"
  proof -
    from replacementFees_below_error [OF assms(3) that]
    obtain p m where "p < m"
      and "replacementFees CANCEL_RATE t (Some g) = Inl (minimumIncreaseError p m)"
      by blast
    then show ?thesis
      using assms Some by (auto simp: stopTransaction_def)
  qed
  have speed: "\<exists>p m. p < m \<and> speedUpTransaction env transactionID (Some g) s
                                 = (Inl (minimumIncreaseError p m), s)"
    if "overrideBelowMinimum SPEED_UP_RATE t g"
  proof -
    from replacementFees_below_error [OF assms(3) that]
    obtain p m where "p < m"
      and "replacementFees SPEED_UP_RATE t (Some g) = Inl (minimumIncreaseError p m)"
      by blast
    then show ?thesis
      using assms Some by (auto simp: speedUpTransaction_def)
  qed
  from stop speed Some show ?thesis by simp
qed

theorem low_override_rejected_witness:
  "overrideBelowMinimum CANCEL_RATE legacyTransfer lowGasPrice
   \<and> overrideBelowMinimum SPEED_UP_RATE legacyTransfer lowGasPrice
   \<and> (\<exists>p m. p < m \<and> stopTransaction exampleEnv ''id-1'' (Some lowGasPrice) exampleState
                      = (Inl (minimumIncreaseError p m), exampleState))
   \<and> (\<exists>p m. p < m \<and> speedUpTransaction exampleEnv ''id-1'' (Some lowGasPrice) exampleState
                      = (Inl (minimumIncreaseError p m), exampleState))"
proof -
  have a: "find (\<lambda>m. txId m = ''id-1'') (transactions exampleState) = Some submittedRecord"
    by code_simp
  have b: "transaction submittedRecord = Some legacyTransfer" by code_simp
  have c: "validateGasValues lowGasPrice = None" by code_simp
  have d: "overrideBelowMinimum CANCEL_RATE legacyTransfer lowGasPrice" by code_simp
  have e: "overrideBelowMinimum SPEED_UP_RATE legacyTransfer lowGasPrice" by code_simp
  have f: "sign exampleEnv = Some exampleSigner" by (simp add: exampleEnv_def)
  show ?thesis
    using low_override_rejected [OF a b c, of exampleEnv] d e f by simp
qed

text \<open>
  Claim C7, as stated, promises the minimum-increase error for every such call. Without a
  sign method the guard that precedes the computation of the fees throws its own error.
\<close>

theorem low_override_without_signer:
  "overrideBelowMinimum CANCEL_RATE legacyTransfer lowGasPrice
   \<and> stopTransaction (exampleEnv\<lparr>sign := None\<rparr>) ''id-1'' (Some lowGasPrice) exampleState
       = (Inl (mkError ''No sign method defined.''), exampleState)"
  by code_simp

section \<open>Speeding up a legacy transaction\<close>

lemma trim_member_nonfinal:
  assumes "tx \<in> set txs" and "\<not> isFinalState (status tx)" and "transaction tx \<noteq> None"
  shows "tx \<in> set (trimTransactionsForState d l txs)"
proof -
  have "count (mset (filterTxsToKeep d l [] (sortDescending txs))) tx
        = count (mset (sortDescending txs)) tx"
    using assms(2,3) by (rule count_filterTxsToKeep_nonfinal)
  also have "\<dots> = count (mset txs) tx" by (simp add: mset_sortDescending)
  finally have "count (mset (trimTransactionsForState d l txs)) tx = count (mset txs) tx"
    by (simp add: trimTransactionsForState_def)
  moreover have "count (mset txs) tx > 0" using assms(1) by simp
  ultimately have "count (mset (trimTransactionsForState d l txs)) tx > 0" by simp
  then show ?thesis by (simp only: count_greater_zero_iff set_mset_mset)
qed

lemma validatedOr_result:
  assumes "validatedOr v minimum fallback = Inr r"
  shows "r = (if truthy v then v else fallback)
         \<and> (truthy v \<longrightarrow> convertHexToDecimal (Some minimum) \<le> convertHexToDecimal v)"
  using assms
  by (cases v) (auto simp: validatedOr_def validateMinimumIncrease_def Let_def truthy_def
      split: if_splits)

lemma replacementFees_legacy:
  assumes ok: "replacementFees SPEED_UP_RATE t gasValues = Inr (a, b, c)"
      and valid: "\<forall>g. gasValues = Some g \<longrightarrow> validateGasValues g = None"
      and legacy: "tx_maxFeePerGas t = None" "tx_maxPriorityFeePerGas t = None"
      and noFee: "\<not> isFeeMarketEIP1559Values gasValues"
  shows "a = Some (speedUpGasPrice t gasValues) \<and> b = None \<and> c = None
         \<and> convertHexToDecimal (Some (getIncreasedPriceFromExisting (tx_gasPrice t) SPEED_UP_RATE))
             \<le> convertHexToDecimal (Some (speedUpGasPrice t gasValues))"
proof -
  let ?min = "getIncreasedPriceFromExisting (tx_gasPrice t) SPEED_UP_RATE"
  let ?fromValues = "if isGasPriceValue gasValues then gv_gasPrice (the gasValues) else None"
  from ok obtain r1 where r1: "validatedOr ?fromValues ?min (Some ?min) = Inr r1"
    unfolding replacementFees_def Let_def by (auto split: sum.splits)
  from ok r1 legacy noFee have abc: "a = r1 \<and> b = None \<and> c = None"
    unfolding replacementFees_def Let_def
    by (auto simp: validatedOr_def andMinimum_def truthy_def split: sum.splits)
  note res = validatedOr_result [OF r1]
  show ?thesis
  proof (cases "isGasPriceValue gasValues")
    case False
    then have "speedUpGasPrice t gasValues = ?min"
      by (auto simp: speedUpGasPrice_def isGasPriceValue_def split: option.splits)
    moreover have "r1 = Some ?min" using res False by (simp add: truthy_def)
    ultimately show ?thesis using abc by simp
  next
    case True
    then obtain g p where g: "gasValues = Some g" and p: "gv_gasPrice g = Some p"
      by (auto simp: isGasPriceValue_def split: option.splits)
    have "isHexString p" using valid g p validateGasValues_fields [of g] by simp
    then have tr: "truthy (Some p)" by (rule isHexString_truthy)
    have sp: "speedUpGasPrice t gasValues = p" using g p by (simp add: speedUpGasPrice_def)
    from res True g p tr have "r1 = Some p"
      and "convertHexToDecimal (Some ?min) \<le> convertHexToDecimal (Some p)"
      by simp_all
    then show ?thesis using abc sp by simp
  qed
qed

lemma find_txId: "find (\<lambda>m. txId m = x) xs = Some m \<Longrightarrow> txId m = x"
  by (auto simp: find_Some_iff)

lemma signAndSend_sent:
  assumes "signAndSend env signer txParams sender s = (Inr h, s')"
  shows "\<exists>raw. signer txParams sender = Inr (Inr raw) \<and> sendRawTransaction env raw = Inr h
               \<and> s' = s\<lparr>effects := effects s @ [SignCall txParams sender,
                                                   SendRawTransaction raw]\<rparr>"
  using assms
  by (auto simp: signAndSend_def effect_def Let_def split: option.splits sum.splits)

text \<open>
  Claim C9, amended. After a successful \<^verbatim>\<open>speedUpTransaction\<close> on a record with a legacy
  gas price and no fee-market fields, called with no gas values or with a gas price only,
  the configured signer has been called once, on the parameters of the record with the
  new gas price, what it returned has been sent once, and the event
  \<^verbatim>\<open><id>:speedup\<close> follows; nothing else is done to the outside. The list handed to the
  trim is the list of the state followed by one record: the original with a new id, a new
  time, the hash the node answered to that broadcast and, in its parameters, the gas price
  of the override (which read at least the price bumped at the rate 1.1) or else that
  bumped price; every other field, \<^verbatim>\<open>from\<close> and the nonce among them, is the original's.
  The original record is not assigned to. When its status is not final, the trim keeps
  both the original and the new record.
\<close>

theorem speedUp_legacy_record:
  assumes run: "speedUpTransaction env transactionID gasValues s = (Inr (), s')"
      and found: "find (\<lambda>m. txId m = transactionID) (transactions s) = Some transactionMeta"
      and params: "transaction transactionMeta = Some t"
      and legacy: "tx_gasPrice t \<noteq> None" "tx_maxFeePerGas t = None"
                  "tx_maxPriorityFeePerGas t = None"
      and noFee: "\<not> isFeeMarketEIP1559Values gasValues"
  shows "\<exists>signer raw h.
           sign env = Some signer
           \<and> signer \<lparr>params = t\<lparr>tx_gasPrice := Some (speedUpGasPrice t gasValues)\<rparr>,
                       gasLimit = tx_gas t, envelopeType = None\<rparr> (tx_from t)
               = Inr (Inr raw)
           \<and> sendRawTransaction env raw = Inr h
           \<and> s' = s\<lparr>transactions :=
                      trim env (transactions s @
                        [transactionMeta\<lparr>txId := random env, time := dateNow env,
                           hash := Some h,
                           transaction :=
                             Some (t\<lparr>tx_gasPrice := Some (speedUpGasPrice t gasValues)\<rparr>)\<rparr>]),
                    effects :=
                      effects s @
                      [SignCall \<lparr>params = t\<lparr>tx_gasPrice := Some (speedUpGasPrice t gasValues)\<rparr>,
                                  gasLimit = tx_gas t, envelopeType = None\<rparr> (tx_from t),
                       SendRawTransaction raw,
                       Emit (transactionID @ '':speedup'')
                         (transactionMeta\<lparr>txId := random env, time := dateNow env,
                            hash := Some h,
                            transaction :=
                              Some (t\<lparr>tx_gasPrice := Some (speedUpGasPrice t gasValues)\<rparr>)\<rparr>)]\<rparr>
           \<and> convertHexToDecimal
                (Some (getIncreasedPriceFromExisting (tx_gasPrice t) SPEED_UP_RATE))
               \<le> convertHexToDecimal (Some (speedUpGasPrice t gasValues))
           \<and> (\<not> isFinalState (status transactionMeta) \<longrightarrow>
                transactionMeta \<in> set (transactions s')
                \<and> transactionMeta\<lparr>txId := random env, time := dateNow env, hash := Some h,
                     transaction :=
                       Some (t\<lparr>tx_gasPrice := Some (speedUpGasPrice t gasValues)\<rparr>)\<rparr>
                    \<in> set (transactions s'))"
proof -
  have valid: "\<forall>g. gasValues = Some g \<longrightarrow> validateGasValues g = None"
    using run by (auto simp: speedUpTransaction_def split: option.splits)
  then have v: "(case gasValues of None \<Rightarrow> None | Some g \<Rightarrow> validateGasValues g) = None"
    by (cases gasValues) simp_all
  have id: "txId transactionMeta = transactionID"
    using found by (rule find_txId)
  from run v found params obtain signer where signer: "sign env = Some signer"
    by (cases "sign env") (auto simp: speedUpTransaction_def)
  from run v found params signer obtain a b c
    where fees: "replacementFees SPEED_UP_RATE t gasValues = Inr (a, b, c)"
    by (cases "replacementFees SPEED_UP_RATE t gasValues")
       (auto simp: speedUpTransaction_def)
  note f = replacementFees_legacy [OF fees valid legacy(2,3) noFee]
  let ?txParams = "\<lparr>params = t\<lparr>tx_gasPrice := Some (speedUpGasPrice t gasValues)\<rparr>,
                     gasLimit = tx_gas t, envelopeType = None\<rparr>"
  from run v found params signer fees f obtain h s1
    where sent: "signAndSend env signer ?txParams (tx_from t) s = (Inr h, s1)"
    by (cases "signAndSend env signer ?txParams (tx_from t) s")
       (auto simp: speedUpTransaction_def truthy_def split: sum.splits)
  from signAndSend_sent [OF sent] obtain raw
    where raw: "signer ?txParams (tx_from t) = Inr (Inr raw)"
      and answer: "sendRawTransaction env raw = Inr h"
      and s1: "s1 = s\<lparr>effects := effects s @ [SignCall ?txParams (tx_from t),
                                                 SendRawTransaction raw]\<rparr>"
    by blast
  let ?new = "transactionMeta\<lparr>txId := random env, time := dateNow env, hash := Some h,
                transaction := Some (t\<lparr>tx_gasPrice := Some (speedUpGasPrice t gasValues)\<rparr>)\<rparr>"
  have state: "s' = s\<lparr>transactions := trim env (transactions s @ [?new]),
                       effects := effects s @ [SignCall ?txParams (tx_from t),
                                    SendRawTransaction raw,
                                    Emit (transactionID @ '':speedup'') ?new]\<rparr>"
    using run v found params signer fees f sent s1 id
    by (auto simp: speedUpTransaction_def truthy_def emit_def effect_def Let_def)
  then have list: "transactions s' = trim env (transactions s @ [?new])" by simp
  have kept: "transactionMeta \<in> set (transactions s') \<and> ?new \<in> set (transactions s')"
    if nonfinal: "\<not> isFinalState (status transactionMeta)"
  proof -
    have "transactionMeta \<in> set (transactions s)"
      using found by (auto simp: find_Some_iff in_set_conv_nth)
    then have "transactionMeta \<in> set (transactions s @ [?new])" by simp
    then have old: "transactionMeta \<in> set (transactions s')"
      unfolding list trim_def using nonfinal params
      by (intro trim_member_nonfinal) simp_all
    have "?new \<in> set (transactions s @ [?new])" by simp
    then have "?new \<in> set (transactions s')"
      unfolding list trim_def using nonfinal
      by (intro trim_member_nonfinal) simp_all
    with old show ?thesis by simp
  qed
  show ?thesis
    using signer raw answer state f kept
    by (intro exI [of _ signer] exI [of _ raw] exI [of _ h]) simp
qed

theorem speedUp_legacy_record_witness:
  "speedUpTransaction exampleEnv ''id-1'' None exampleState
   = (Inr (),
      \<lparr>transactions =
         [submittedRecord,
          submittedRecord\<lparr>txId := ''id-new'', time := 400000000, hash := Some ''0x1337'',
            transaction := Some (legacyTransfer\<lparr>tx_gasPrice := Some ''0x5916a6d6''\<rparr>)\<rparr>],
       effects =
         [SignCall \<lparr>params = legacyTransfer\<lparr>tx_gasPrice := Some ''0x5916a6d6''\<rparr>,
                     gasLimit = Some ''0x5208'', envelopeType = None\<rparr>
            (tx_from legacyTransfer),
          SendRawTransaction ''0xf86c'',
          Emit ''id-1:speedup''
            (submittedRecord\<lparr>txId := ''id-new'', time := 400000000, hash := Some ''0x1337'',
               transaction := Some (legacyTransfer\<lparr>tx_gasPrice := Some ''0x5916a6d6''\<rparr>)\<rparr>)]\<rparr>)"
proof -
  define s' where "s' = snd (speedUpTransaction exampleEnv ''id-1'' None exampleState)"
  have ok: "fst (speedUpTransaction exampleEnv ''id-1'' None exampleState) = Inr ()"
    by code_simp
  then have run: "speedUpTransaction exampleEnv ''id-1'' None exampleState = (Inr (), s')"
    unfolding s'_def by (metis prod.collapse)
  have found: "find (\<lambda>m. txId m = ''id-1'') (transactions exampleState) = Some submittedRecord"
    by code_simp
  have params: "transaction submittedRecord = Some legacyTransfer" by code_simp
  have l1: "tx_gasPrice legacyTransfer \<noteq> None" by code_simp
  have l2: "tx_maxFeePerGas legacyTransfer = None" by code_simp
  have l3: "tx_maxPriorityFeePerGas legacyTransfer = None" by code_simp
  have noFee: "\<not> isFeeMarketEIP1559Values None" by code_simp
  have price: "speedUpGasPrice legacyTransfer None = ''0x5916a6d6''" by code_simp
  have env: "random exampleEnv = ''id-new''" "dateNow exampleEnv = 400000000"
    "sign exampleEnv = Some exampleSigner" "sendRawTransaction exampleEnv = (\<lambda>raw. Inr ''0x1337'')"
    by (simp_all add: exampleEnv_def)
  have st: "transactions exampleState = [submittedRecord]" "effects exampleState = []"
    by (simp_all add: exampleState_def)
  have gas: "tx_gas legacyTransfer = Some ''0x5208''" by code_simp
  have trimmed: "trim exampleEnv
       [submittedRecord,
        submittedRecord\<lparr>txId := ''id-new'', time := 400000000, hash := Some ''0x1337'',
          transaction := Some (legacyTransfer\<lparr>tx_gasPrice := Some ''0x5916a6d6''\<rparr>)\<rparr>]
     = [submittedRecord,
        submittedRecord\<lparr>txId := ''id-new'', time := 400000000, hash := Some ''0x1337'',
          transaction := Some (legacyTransfer\<lparr>tx_gasPrice := Some ''0x5916a6d6''\<rparr>)\<rparr>]"
    by code_simp
  from speedUp_legacy_record [OF run found params l1 l2 l3 noFee]
  obtain signer raw h where
    "sign exampleEnv = Some signer"
    "signer \<lparr>params = legacyTransfer\<lparr>tx_gasPrice := Some ''0x5916a6d6''\<rparr>,
              gasLimit = Some ''0x5208'', envelopeType = None\<rparr> (tx_from legacyTransfer)
     = Inr (Inr raw)"
    "sendRawTransaction exampleEnv raw = Inr h"
    "s' = exampleState\<lparr>transactions :=
            trim exampleEnv
              [submittedRecord,
               submittedRecord\<lparr>txId := ''id-new'', time := 400000000, hash := Some h,
                 transaction := Some (legacyTransfer\<lparr>tx_gasPrice := Some ''0x5916a6d6''\<rparr>)\<rparr>],
          effects :=
            [SignCall \<lparr>params = legacyTransfer\<lparr>tx_gasPrice := Some ''0x5916a6d6''\<rparr>,
                        gasLimit = Some ''0x5208'', envelopeType = None\<rparr>
               (tx_from legacyTransfer),
             SendRawTransaction raw,
             Emit ''id-1:speedup''
               (submittedRecord\<lparr>txId := ''id-new'', time := 400000000, hash := Some h,
                  transaction := Some (legacyTransfer\<lparr>tx_gasPrice := Some ''0x5916a6d6''\<rparr>)\<rparr>)]\<rparr>"
    unfolding price env(1,2) st gas by auto
  then have "raw = ''0xf86c''" and "h = ''0x1337''"
    and "s' = \<lparr>transactions =
                 [submittedRecord,
                  submittedRecord\<lparr>txId := ''id-new'', time := 400000000, hash := Some h,
                    transaction := Some (legacyTransfer\<lparr>tx_gasPrice := Some ''0x5916a6d6''\<rparr>)\<rparr>],
               effects =
                 [SignCall \<lparr>params = legacyTransfer\<lparr>tx_gasPrice := Some ''0x5916a6d6''\<rparr>,
                             gasLimit = Some ''0x5208'', envelopeType = None\<rparr>
                    (tx_from legacyTransfer),
                  SendRawTransaction raw,
                  Emit ''id-1:speedup''
                    (submittedRecord\<lparr>txId := ''id-new'', time := 400000000, hash := Some h,
                       transaction := Some (legacyTransfer\<lparr>tx_gasPrice := Some ''0x5916a6d6''\<rparr>)\<rparr>)]\<rparr>"
    using env(3,4) trimmed by (auto simp: exampleSigner_def exampleState_def)
  then show ?thesis using run by simp
qed

text \<open>
  Claim C9, as stated, gives the new record the bumped gas price after every successful
  speed-up of a legacy record. Called with fee-market values, which a record without
  fee-market fields accepts (their minimum is computed from an absent value), the function
  takes the fee-market branch: the new record carries the two values and the gas price of
  the original, \<^verbatim>\<open>0x50fd51da\<close>, not the bumped \<^verbatim>\<open>0x5916a6d6\<close>.
\<close>

theorem speedUp_fee_market_override:
  "fst (speedUpTransaction exampleEnv ''id-1'' (Some feeMarketOverride) exampleState) = Inr ()
   \<and> transactions (snd (speedUpTransaction exampleEnv ''id-1'' (Some feeMarketOverride)
                          exampleState))
     = [submittedRecord,
        submittedRecord\<lparr>txId := ''id-new'', time := 400000000, hash := Some ''0x1337'',
          transaction := Some (legacyTransfer\<lparr>tx_maxFeePerGas := Some ''0x5'',
                                 tx_maxPriorityFeePerGas := Some ''0x5''\<rparr>)\<rparr>]
   \<and> tx_gasPrice legacyTransfer = Some ''0x50fd51da''
   \<and> getIncreasedPriceFromExisting (tx_gasPrice legacyTransfer) SPEED_UP_RATE = ''0x5916a6d6''"
  by code_simp

section \<open>The approval of a transaction\<close>

lemma find_filter_out: "find (\<lambda>m. f m = x) (filter (\<lambda>m. f m \<noteq> x) xs) = None"
  by (induction xs) auto

lemma find_None_subset:
  assumes "find P ys = None" and "set xs \<subseteq> set ys"
  shows "find P xs = None"
  using assms by (auto simp: find_None_iff)

lemma getTransaction_cancelTransaction:
  "getTransaction (cancelTransaction env transactionID s) transactionID = None"
proof (cases "find (\<lambda>m. txId m = transactionID) (transactions s)")
  case None
  then show ?thesis by (simp add: cancelTransaction_def getTransaction_def)
next
  case (Some found)
  let ?rest = "filter (\<lambda>m. txId m \<noteq> transactionID)
                 (replaceById (found\<lparr>status := Rejected\<rparr>) (transactions s))"
  have "find (\<lambda>m. txId m = transactionID) (trim env ?rest) = None"
    using find_filter_out [of txId transactionID] set_trim_subset
    unfolding trim_def by (rule find_None_subset)
  then show ?thesis
    using Some
    by (simp add: cancelTransaction_def getTransaction_def Let_def emit_def effect_def
        storeInPlace_def)
qed

lemma failTransaction_throws:
  "failTransaction env transactionMeta err s = (Inl e, s') \<Longrightarrow> s' = s"
  by (auto simp: failTransaction_def updateTransaction_def Let_def
      split: option.splits prod.splits sum.splits)

lemma getTransaction_effects:
  "getTransaction (s\<lparr>effects := es\<rparr>) transactionID = getTransaction s transactionID"
  by (simp add: getTransaction_def)

lemma settleApproval_result:
  assumes "settleApproval transactionId resultCallbacks s = (r, s')"
  shows "(case r of Inr h \<Rightarrow> submittedHash s' transactionId = Some h
                  | Inl e \<Rightarrow> submittedHash s' transactionId = None)"
proof -
  have same: "getTransaction s' transactionId = getTransaction s transactionId"
    using assms
    by (auto simp: settleApproval_def Let_def callbackError_def callbackSuccess_def
        effect_def getTransaction_def
        split: option.splits TransactionStatus.splits if_splits)
  show ?thesis
  proof (cases "getTransaction s transactionId")
    case None
    then show ?thesis
      using assms same by (auto simp: settleApproval_def Let_def submittedHash_def)
  next
    case (Some finalMeta)
    then show ?thesis
      using assms same
      by (cases "status finalMeta")
         (auto simp: settleApproval_def Let_def submittedHash_def split: option.splits)
  qed
qed

lemma isTransactionCompleted_open:
  assumes "isTransactionCompleted s transactionId = (Some meta, False)"
  shows "getTransaction s transactionId = Some meta \<and> \<not> isLocalFinalState (status meta)"
  using assms by (auto simp: isTransactionCompleted_def split: option.splits)

lemma processApproval_result:
  assumes "processApproval env transactionMeta s = (r, s')"
  shows "(case r of Inr h \<Rightarrow> submittedHash s' (txId transactionMeta) = Some h
                  | Inl e \<Rightarrow> submittedHash s' (txId transactionMeta) = None)"
proof -
  let ?id = "txId transactionMeta"
  let ?s0 = "effect (RequestApproval ?id) s"
  define tried where "tried =
    (case requestApproval env transactionMeta of
       Inl e \<Rightarrow> (Inl e, False, ?s0)
     | Inr resultCallbacks \<Rightarrow>
         (case isTransactionCompleted ?s0 ?id of
            (Some meta, False) \<Rightarrow>
              (case approveTransaction env ?id ?s0 of
                 (r, s1) \<Rightarrow> (r, resultCallbacks, s1))
          | _ \<Rightarrow> (Inr (), resultCallbacks, ?s0)))"
  obtain outcome resultCallbacks s1 where t: "tried = (outcome, resultCallbacks, s1)"
    by (cases tried) auto
  have run: "(r, s') =
    (case (outcome, resultCallbacks, s1) of
       (Inr u, resultCallbacks, s1) \<Rightarrow> settleApproval ?id resultCallbacks s1
     | (Inl err, resultCallbacks, s1) \<Rightarrow>
         (case isTransactionCompleted s1 ?id of
            (Some meta, False) \<Rightarrow>
              if code err = Some 4001
              then (Inl (userRejectedRequest ''User rejected the transaction''),
                    cancelTransaction env ?id s1)
              else
                (case failTransaction env meta err s1 of
                   (Inl e, s2) \<Rightarrow> (Inl e, s2)
                 | (Inr u, s2) \<Rightarrow> settleApproval ?id resultCallbacks s2)
          | _ \<Rightarrow> settleApproval ?id resultCallbacks s1))"
    using assms t unfolding processApproval_def Let_def tried_def by simp
  show ?thesis
  proof (cases outcome)
    case (Inr u)
    then have "settleApproval ?id resultCallbacks s1 = (r, s')" using run by simp
    then show ?thesis by (rule settleApproval_result)
  next
    case (Inl err)
    obtain found completed where c: "isTransactionCompleted s1 ?id = (found, completed)"
      by (cases "isTransactionCompleted s1 ?id") auto
    show ?thesis
    proof (cases "\<exists>meta. found = Some meta \<and> \<not> completed")
      case False
      then have "settleApproval ?id resultCallbacks s1 = (r, s')"
        using run Inl c by (cases found; cases completed) auto
      then show ?thesis by (rule settleApproval_result)
    next
      case True
      then obtain meta where m: "found = Some meta" "\<not> completed" by blast
      with c have c': "isTransactionCompleted s1 ?id = (Some meta, False)" by simp
      note opened = isTransactionCompleted_open [OF c']
      show ?thesis
      proof (cases "code err = Some 4001")
        case True
        then have "r = Inl (userRejectedRequest ''User rejected the transaction'')"
          and "s' = cancelTransaction env ?id s1"
          using run Inl c' by simp_all
        then show ?thesis
          by (simp add: submittedHash_def getTransaction_cancelTransaction)
      next
        case False
        obtain failed s2 where f: "failTransaction env meta err s1 = (failed, s2)"
          by (cases "failTransaction env meta err s1") auto
        show ?thesis
        proof (cases failed)
          case (Inl e)
          then have "s2 = s1" using f failTransaction_throws by blast
          then have "r = Inl e" and "s' = s1"
            using run \<open>outcome = Inl err\<close> c' False f Inl by simp_all
          moreover have "status meta \<noteq> Submitted"
            using opened by (auto simp: isLocalFinalState_def)
          ultimately show ?thesis
            using opened by (simp add: submittedHash_def)
        next
          case (Inr u)
          then have "settleApproval ?id resultCallbacks s2 = (r, s')"
            using run \<open>outcome = Inl err\<close> c' False f by simp
          then show ?thesis by (rule settleApproval_result)
        qed
      qed
    qed
  qed
qed

text \<open>
  Claim C4. The promise \<^verbatim>\<open>addTransaction\<close> returns as \<^verbatim>\<open>result\<close> is the one of
  \<^verbatim>\<open>processApproval\<close>. It resolves with a hash exactly when, after the approval has been
  processed, the record with the id of the transaction is in the state with the status
  \<^verbatim>\<open>submitted\<close>, and the hash is that record's; in every other case (another status, or no
  record with the id) it rejects with an error.
\<close>

theorem addTransaction_result:
  assumes "addTransaction env tx requester s = (Inr (result, transactionMeta), s')"
  shows "(\<forall>h. result = Inr h \<longleftrightarrow> submittedHash s' (txId transactionMeta) = Some h)
         \<and> ((\<exists>e. result = Inl e) \<longleftrightarrow> submittedHash s' (txId transactionMeta) = None)"
proof -
  from assms obtain s2 where "processApproval env transactionMeta s2 = (result, s')"
    by (auto simp: addTransaction_def Let_def split: option.splits sum.splits prod.splits)
  from processApproval_result [OF this] show ?thesis
    by (cases result) auto
qed

theorem addTransaction_result_witness:
  "fst (addTransaction exampleEnv newTransfer None exampleState)
     = Inr (Inr (Some ''0x1337''), addedRecord)
   \<and> submittedHash (snd (addTransaction exampleEnv newTransfer None exampleState)) ''id-new''
     = Some (Some ''0x1337'')"
proof -
  have ok: "fst (addTransaction exampleEnv newTransfer None exampleState)
            = Inr (Inr (Some ''0x1337''), addedRecord)"
    by code_simp
  then have run: "addTransaction exampleEnv newTransfer None exampleState
      = (Inr (Inr (Some ''0x1337''), addedRecord),
         snd (addTransaction exampleEnv newTransfer None exampleState))"
    by (metis prod.collapse)
  have "txId addedRecord = ''id-new''" by (simp add: addedRecord_def)
  then show ?thesis
    using addTransaction_result [OF run] ok by auto
qed

lemma replaceById_Cons:
  "replaceById m (y # ys) = (if txId m = txId y then m # ys else y # replaceById m ys)"
  by (simp add: replaceById_def split: option.splits)

lemma filter_replaceById:
  "txId m = x \<Longrightarrow> filter (\<lambda>y. txId y \<noteq> x) (replaceById m xs) = filter (\<lambda>y. txId y \<noteq> x) xs"
proof (induction xs)
  case Nil
  show ?case by (simp add: replaceById_def)
next
  case (Cons y ys)
  then show ?case by (auto simp: replaceById_Cons)
qed

text \<open>
  Claim C3. When the approval request is rejected with the user-rejection code 4001 and
  the record of the transaction is in the state with a status that is not locally final,
  \<^verbatim>\<open>processApproval\<close>, the promise \<^verbatim>\<open>addTransaction\<close> returned, rejects with the
  user-rejection error; the only event is \<^verbatim>\<open><id>:finished\<close>, carrying the record with the
  status \<^verbatim>\<open>rejected\<close>; nothing is signed or sent, and the records with that id are
  removed from the list, so none is left with the status \<^verbatim>\<open>failed\<close>.
\<close>

theorem user_rejection:
  assumes "requestApproval env transactionMeta = Inl err"
      and "code err = Some 4001"
      and "getTransaction s (txId transactionMeta) = Some m"
      and "\<not> isLocalFinalState (status m)"
  shows "processApproval env transactionMeta s
         = (Inl (userRejectedRequest ''User rejected the transaction''),
            \<lparr>transactions =
               trim env (filter (\<lambda>x. txId x \<noteq> txId transactionMeta) (transactions s)),
             effects =
               effects s @
               [RequestApproval (txId transactionMeta),
                Emit (txId transactionMeta @ '':finished'') (m\<lparr>status := Rejected\<rparr>)]\<rparr>)"
proof -
  let ?id = "txId transactionMeta"
  let ?s0 = "effect (RequestApproval ?id) s"
  have id: "txId m = ?id"
    using assms(3) by (auto simp: getTransaction_def dest: find_txId)
  have found: "find (\<lambda>x. txId x = ?id) (transactions ?s0) = Some m"
    using assms(3) by (simp add: getTransaction_def effect_def)
  then have completed: "isTransactionCompleted ?s0 ?id = (Some m, False)"
    using assms(4) by (simp add: isTransactionCompleted_def getTransaction_def)
  have cancel: "cancelTransaction env ?id ?s0
        = \<lparr>transactions = trim env (filter (\<lambda>x. txId x \<noteq> ?id) (transactions s)),
           effects = effects s @ [RequestApproval ?id,
                       Emit (?id @ '':finished'') (m\<lparr>status := Rejected\<rparr>)]\<rparr>"
    using found id filter_replaceById [of "m\<lparr>status := Rejected\<rparr>" ?id "transactions s"]
    by (simp add: cancelTransaction_def Let_def emit_def effect_def storeInPlace_def
        finishedEvent_def)
  show ?thesis
    using assms(1,2) completed cancel
    by (simp add: processApproval_def Let_def)
qed

theorem user_rejection_witness:
  "processApproval rejectingEnv unapprovedFirst pendingState
   = (Inl (userRejectedRequest ''User rejected the transaction''),
      \<lparr>transactions = [submittedRecord],
       effects = [RequestApproval ''id-4'',
                  Emit ''id-4:finished'' (unapprovedFirst\<lparr>status := Rejected\<rparr>)]\<rparr>)"
proof -
  have a: "requestApproval rejectingEnv unapprovedFirst = Inl userDenied"
    by (simp add: rejectingEnv_def)
  have b: "code userDenied = Some 4001" by code_simp
  have c: "getTransaction pendingState (txId unapprovedFirst) = Some unapprovedFirst"
    by code_simp
  have d: "\<not> isLocalFinalState (status unapprovedFirst)" by code_simp
  have e: "trim rejectingEnv
             (filter (\<lambda>x. txId x \<noteq> txId unapprovedFirst) (transactions pendingState))
           = [submittedRecord]"
    by code_simp
  have f: "txId unapprovedFirst = ''id-4''" "effects pendingState = []"
    by (simp_all add: unapprovedFirst_def pendingState_def)
  show ?thesis
    using user_rejection [OF a b c d] e f by simp
qed

section \<open>Locks and failures in the approval\<close>

lemma acquiredLocks_append: "acquiredLocks (xs @ ys) = acquiredLocks xs @ acquiredLocks ys"
  by (induction xs rule: acquiredLocks.induct) simp_all

lemma releasedLocks_append: "releasedLocks (xs @ ys) = releasedLocks xs @ releasedLocks ys"
  by (induction xs rule: releasedLocks.induct) simp_all

lemma updateTransaction_effects:
  "updateTransaction env transactionMeta s = (r, stored, s') \<Longrightarrow> effects s' = effects s"
  by (auto simp: updateTransaction_def Let_def split: option.splits)

lemma updateStoredTransaction_effects:
  "updateStoredTransaction env transactionMeta s = (r, stored, s') \<Longrightarrow> effects s' = effects s"
  by (auto simp: updateStoredTransaction_def storeInPlace_def
      split: prod.splits sum.splits dest!: updateTransaction_effects)

lemma failTransaction_locks:
  assumes "failTransaction env transactionMeta err s = (r, s')"
  shows "acquiredLocks (effects s') = acquiredLocks (effects s)
         \<and> releasedLocks (effects s') = releasedLocks (effects s)"
  using assms
  by (auto simp: failTransaction_def Let_def emit_def effect_def acquiredLocks_append
      releasedLocks_append split: prod.splits sum.splits dest!: updateTransaction_effects)

lemma approvePublish_locks:
  assumes "approvePublish env nonceLock transactionMeta raw s = (tried, lock, current, s')"
  shows "lock = nonceLock \<and> acquiredLocks (effects s') = acquiredLocks (effects s)
         \<and> releasedLocks (effects s') = releasedLocks (effects s)"
  using assms
  by (auto simp: approvePublish_def Let_def emit_def effect_def acquiredLocks_append
      releasedLocks_append split: prod.splits sum.splits
      dest!: updateStoredTransaction_effects)

lemma approveSign_locks:
  assumes "approveSign env signer nonceLock transactionMeta txParams sender s
           = (tried, lock, current, s')"
  shows "lock = nonceLock \<and> acquiredLocks (effects s') = acquiredLocks (effects s)
         \<and> releasedLocks (effects s') = releasedLocks (effects s)"
  using assms
  by (auto simp: approveSign_def Let_def effect_def acquiredLocks_append
      releasedLocks_append split: option.splits prod.splits sum.splits
      dest!: updateStoredTransaction_effects approvePublish_locks)

lemma approveTransactionTry_locks:
  assumes "approveTransactionTry env transactionMeta t s = (tried, nonceLock, current, s')"
  shows "acquiredLocks (effects s') = acquiredLocks (effects s) @ lockList nonceLock
         \<and> releasedLocks (effects s') = releasedLocks (effects s)"
proof (cases "sign env")
  case None
  then show ?thesis
    using assms
    by (auto simp: approveTransactionTry_def lockList_def effect_def acquiredLocks_append
        releasedLocks_append split: prod.splits dest!: failTransaction_locks)
next
  case (Some signer)
  show ?thesis
  proof (cases "truthy (providerChainId env)")
    case False
    then show ?thesis
      using assms Some
      by (auto simp: approveTransactionTry_def lockList_def effect_def acquiredLocks_append
          releasedLocks_append split: prod.splits dest!: failTransaction_locks)
  next
    case True
    show ?thesis
    proof (cases "truthy (tx_nonce t)")
      case True
      with assms Some \<open>truthy (providerChainId env)\<close> show ?thesis
        by (auto simp: approveTransactionTry_def Let_def lockList_def storeInPlace_def
            dest!: approveSign_locks)
    next
      case False
      show ?thesis
      proof (cases "getNonceLock env (tx_from t)")
        case (Inl e)
        with assms Some \<open>truthy (providerChainId env)\<close> False show ?thesis
          by (auto simp: approveTransactionTry_def Let_def lockList_def)
      next
        case (Inr nextNonce)
        with assms Some \<open>truthy (providerChainId env)\<close> False show ?thesis
          by (auto simp: approveTransactionTry_def Let_def lockList_def storeInPlace_def
              effect_def acquiredLocks_append releasedLocks_append
              dest!: approveSign_locks)
      qed
    qed
  qed
qed

lemma failTransaction_stores:
  assumes "transaction transactionMeta = Some t"
      and "validateTransaction env (normalizeTransaction env t) = None"
  shows "failTransaction env transactionMeta err s
         = (Inr (),
            s\<lparr>transactions :=
                 trim env (replaceById (failedRecord env transactionMeta t err) (transactions s)),
               effects :=
                 effects s @ [Emit (txId transactionMeta @ '':finished'')
                                (failedRecord env transactionMeta t err)]\<rparr>)"
  using assms
  by (simp add: failTransaction_def updateTransaction_def Let_def emit_def effect_def
      failedRecord_def finishedEvent_def)

lemma findIndex_Some:
  "findIndex P xs = Some i \<Longrightarrow> i < length xs \<and> P (xs ! i)"
proof (induction xs arbitrary: i)
  case Nil
  then show ?case by simp
next
  case (Cons x xs)
  then show ?case by (cases "P x") auto
qed

lemma updateTransaction_txId:
  "updateTransaction env transactionMeta s = (r, stored, s') \<Longrightarrow> txId stored = txId transactionMeta"
  by (auto simp: updateTransaction_def Let_def split: option.splits)

lemma updateStoredTransaction_txId:
  "updateStoredTransaction env transactionMeta s = (r, stored, s')
   \<Longrightarrow> txId stored = txId transactionMeta"
  by (auto simp: updateStoredTransaction_def split: prod.splits sum.splits
      dest!: updateTransaction_txId)

lemma approvePublish_txId:
  assumes "approvePublish env nonceLock transactionMeta raw s = (tried, lock, current, s')"
  shows "txId current = txId transactionMeta"
  using assms
  by (auto simp: approvePublish_def Let_def split: prod.splits sum.splits
      dest!: updateStoredTransaction_txId)

lemma approveSign_txId:
  assumes "approveSign env signer nonceLock transactionMeta txParams sender s
           = (tried, lock, current, s')"
  shows "txId current = txId transactionMeta"
  using assms
  by (auto simp: approveSign_def Let_def split: option.splits prod.splits sum.splits
      dest!: updateStoredTransaction_txId approvePublish_txId)

lemma approveTransactionTry_txId:
  assumes "approveTransactionTry env transactionMeta t s = (tried, nonceLock, current, s')"
  shows "txId current = txId transactionMeta"
proof (cases "sign env")
  case None
  then show ?thesis
    using assms by (auto simp: approveTransactionTry_def split: prod.splits)
next
  case (Some signer)
  show ?thesis
  proof (cases "truthy (providerChainId env)")
    case False
    then show ?thesis
      using assms Some by (auto simp: approveTransactionTry_def split: prod.splits)
  next
    case True
    then show ?thesis
      using assms Some
      by (auto simp: approveTransactionTry_def Let_def split: if_splits sum.splits
          dest!: approveSign_txId)
  qed
qed

text \<open>
  What \<^verbatim>\<open>approveTransaction\<close> does on every path, for a record of the store that has
  parameters. Whatever the \<^verbatim>\<open>try\<close> block does (return or throw), the nonce lock it has
  taken, if any, is released exactly once, in \<^verbatim>\<open>finally\<close>, and no other lock is taken or
  released; the object the handler receives is the record of the id. When the block
  throws and the parameters of that record pass the validation of the store update in
  \<^verbatim>\<open>failTransaction\<close>, the call returns normally, the record of the id is stored (subject
  to the trim) with the status \<^verbatim>\<open>failed\<close> and the error, and \<^verbatim>\<open><id>:finished\<close> is
  emitted with it, before the lock and the mutex are released.
\<close>

lemma approveTransaction_releases_and_fails:
  assumes lookup: "findIndex (\<lambda>m. transactionID = txId m) (transactions s) = Some index"
      and params: "transaction (transactions s ! index) = Some t"
      and block: "approveTransactionTry env (transactions s ! index) t (effect MutexAcquire s)
                  = (tried, nonceLock, current, s1)"
      and run: "approveTransaction env transactionID s = (r, s')"
  shows "acquiredLocks (effects s') = acquiredLocks (effects s) @ lockList nonceLock
         \<and> releasedLocks (effects s') = releasedLocks (effects s) @ lockList nonceLock
         \<and> txId current = transactionID
         \<and> (\<forall>err t'. tried = Inl err \<longrightarrow> transaction current = Some t' \<longrightarrow>
                validateTransaction env (normalizeTransaction env t') = None \<longrightarrow>
                r = Inr ()
                \<and> txId (failedRecord env current t' err) = transactionID
                \<and> status (failedRecord env current t' err) = Failed
                \<and> error (failedRecord env current t' err) = Some err
                \<and> transactions s'
                    = trim env (replaceById (failedRecord env current t' err) (transactions s1))
                \<and> effects s'
                    = effects s1
                      @ [Emit (transactionID @ '':finished'') (failedRecord env current t' err)]
                      @ map NonceLockRelease (lockList nonceLock) @ [MutexRelease])"
proof -
  let ?s0 = "effect MutexAcquire s"
  have s0: "transactions ?s0 = transactions s" "effects ?s0 = effects s @ [MutexAcquire]"
    by (simp_all add: effect_def)
  obtain r2 s2 where handled:
    "(case tried of Inl err \<Rightarrow> failTransaction env current err s1 | Inr u \<Rightarrow> (Inr (), s1))
     = (r2, s2)"
    by (cases "case tried of Inl err \<Rightarrow> failTransaction env current err s1
                            | Inr u \<Rightarrow> (Inr (), s1)") auto
  have result: "r = r2" "s' = effect MutexRelease (releaseNonceLock nonceLock s2)"
    using run lookup params block handled
    by (simp_all add: approveTransaction_def Let_def s0)
  have tried_locks:
    "acquiredLocks (effects s1) = acquiredLocks (effects s) @ lockList nonceLock"
    "releasedLocks (effects s1) = releasedLocks (effects s)"
    using approveTransactionTry_locks [OF block]
    by (simp_all add: s0 acquiredLocks_append releasedLocks_append)
  have handled_locks:
    "acquiredLocks (effects s2) = acquiredLocks (effects s1)"
    "releasedLocks (effects s2) = releasedLocks (effects s1)"
    using handled by (cases tried; auto dest!: failTransaction_locks)+
  have finally_effects:
    "effects s' = effects s2 @ map NonceLockRelease (lockList nonceLock) @ [MutexRelease]"
    by (cases nonceLock) (simp_all add: result releaseNonceLock_def effect_def lockList_def)
  have locks:
    "acquiredLocks (effects s') = acquiredLocks (effects s) @ lockList nonceLock"
    "releasedLocks (effects s') = releasedLocks (effects s) @ lockList nonceLock"
    by (cases nonceLock;
        simp add: finally_effects acquiredLocks_append releasedLocks_append handled_locks
          tried_locks lockList_def)+
  have cid: "txId current = transactionID"
    using approveTransactionTry_txId [OF block] findIndex_Some [OF lookup] by simp
  have failure:
    "r = Inr ()
     \<and> txId (failedRecord env current t' err) = transactionID
     \<and> status (failedRecord env current t' err) = Failed
     \<and> error (failedRecord env current t' err) = Some err
     \<and> transactions s' = trim env (replaceById (failedRecord env current t' err) (transactions s1))
     \<and> effects s' = effects s1
          @ [Emit (transactionID @ '':finished'') (failedRecord env current t' err)]
          @ map NonceLockRelease (lockList nonceLock) @ [MutexRelease]"
    if "tried = Inl err" and "transaction current = Some t'"
      and "validateTransaction env (normalizeTransaction env t') = None" for err t'
  proof -
    have "(r2, s2) = failTransaction env current err s1"
      using handled that(1) by simp
    also note failTransaction_stores [OF that(2,3), of err s1]
    finally have "r2 = Inr ()"
      and "s2 = s1\<lparr>transactions :=
                     trim env (replaceById (failedRecord env current t' err) (transactions s1)),
                   effects :=
                     effects s1 @ [Emit (txId current @ '':finished'')
                                     (failedRecord env current t' err)]\<rparr>"
      by simp_all
    then show ?thesis
      using result finally_effects cid
      by (cases nonceLock) (simp_all add: releaseNonceLock_def effect_def failedRecord_def)
  qed
  from locks cid failure show ?thesis by blast
qed

lemma approveTransaction_releases_and_fails_example:
  "fst (approveTransaction failingSignerEnv ''id-4'' pendingState) = Inr ()
   \<and> acquiredLocks (effects (snd (approveTransaction failingSignerEnv ''id-4'' pendingState)))
       = [tx_from newTransfer]
   \<and> releasedLocks (effects (snd (approveTransaction failingSignerEnv ''id-4'' pendingState)))
       = [tx_from newTransfer]
   \<and> transactions (snd (approveTransaction failingSignerEnv ''id-4'' pendingState))
       = [submittedRecord,
          unapprovedFirst\<lparr>status := Failed, error := Some signerDown,
                           transaction := Some approvedTransfer\<rparr>]"
proof -
  define tried where
    "tried = approveTransactionTry failingSignerEnv (transactions pendingState ! 1) newTransfer
               (effect MutexAcquire pendingState)"
  define current where "current = fst (snd (snd tried))"
  define s1 where "s1 = snd (snd (snd tried))"
  define final where "final = approveTransaction failingSignerEnv ''id-4'' pendingState"
  have lookup: "findIndex (\<lambda>m. ''id-4'' = txId m) (transactions pendingState) = Some 1"
    by code_simp
  have params: "transaction (transactions pendingState ! 1) = Some newTransfer"
    by code_simp
  have outcome: "fst tried = Inl signerDown" unfolding tried_def by code_simp
  have lock: "fst (snd tried) = Some (tx_from newTransfer)" unfolding tried_def by code_simp
  have block: "approveTransactionTry failingSignerEnv (transactions pendingState ! 1) newTransfer
                 (effect MutexAcquire pendingState)
               = (Inl signerDown, Some (tx_from newTransfer), current, s1)"
    using outcome lock unfolding current_def s1_def tried_def [symmetric]
    by (metis prod.collapse)
  have run: "approveTransaction failingSignerEnv ''id-4'' pendingState = (fst final, snd final)"
    by (simp add: final_def)
  have cur: "transaction current = Some approvedTransfer"
    unfolding current_def tried_def by code_simp
  have valid: "validateTransaction failingSignerEnv
                 (normalizeTransaction failingSignerEnv approvedTransfer) = None"
    by code_simp
  have acq: "acquiredLocks (effects pendingState) = []"
    and rel: "releasedLocks (effects pendingState) = []"
    by (simp_all add: pendingState_def)
  have stored: "trim failingSignerEnv
                  (replaceById (failedRecord failingSignerEnv current approvedTransfer signerDown)
                     (transactions s1))
                = [submittedRecord,
                   unapprovedFirst\<lparr>status := Failed, error := Some signerDown,
                                    transaction := Some approvedTransfer\<rparr>]"
    unfolding current_def s1_def tried_def by code_simp
  note law = approveTransaction_releases_and_fails [OF lookup params block run]
  from law have locks:
    "acquiredLocks (effects (snd final)) = [tx_from newTransfer]"
    "releasedLocks (effects (snd final)) = [tx_from newTransfer]"
    by (simp_all add: acq rel lockList_def)
  from law cur valid have
    "fst final = Inr ()
     \<and> transactions (snd final)
         = trim failingSignerEnv
             (replaceById (failedRecord failingSignerEnv current approvedTransfer signerDown)
                (transactions s1))"
    by blast
  with locks stored show ?thesis
    by (simp add: final_def)
qed

text \<open>
  Claim C1. The release of the nonce lock on every path holds, as shown above. The other
  half, that every exception after the acquisition of the lock marks the transaction
  failed and emits \<^verbatim>\<open><id>:finished\<close>, is what the comments of \<^verbatim>\<open>approveTransaction\<close>
  promise, and the code misses it when \<^verbatim>\<open>failTransaction\<close> throws itself. For a record
  whose parameters the validation rejects (here one without \<^verbatim>\<open>from\<close>, in a state the
  controller was constructed with), the update that follows the signature throws,
  \<^verbatim>\<open>failTransaction\<close> in the handler throws from its own update, and the error leaves
  \<^verbatim>\<open>approveTransaction\<close>: the locks are released, no event is emitted and the record stays
  \<^verbatim>\<open>signed\<close>.
\<close>

theorem approveTransaction_update_throws:
  "approveTransaction exampleEnv ''id-6'' strayState
   = (Inl (mkError ''Invalid from address''),
      \<lparr>transactions =
         [noSender\<lparr>status := Signed,
                   transaction := Some (approvedTransfer\<lparr>tx_from := []\<rparr>)\<rparr>],
       effects =
         [MutexAcquire, NonceLockAcquire [],
          SignCall \<lparr>params = approvedTransfer\<lparr>tx_from := []\<rparr>, gasLimit = Some ''0x5208'',
                     envelopeType = None\<rparr> [],
          NonceLockRelease [], MutexRelease]\<rparr>)"
  by code_simp

end
